theory Spec2Isabelle
  imports Complex_Main "HOL-Library.Multiset" "HOL-Library.List_Lexorder" "HOL-Library.Char_ord"
begin

section \<open>Cluster similarity graph: data model\<close>

text \<open>
  The embedding follows \<^verbatim>\<open>KnowledgeGraphManager\<close> (frontend/js/knowledge-graph.js and its
  extended copy with the cluster view and the concept tree) and \<^verbatim>\<open>VisualizationManager\<close>.
  JavaScript numbers are modelled by \<^typ>\<open>real\<close>: the arithmetic of the source is read as
  exact arithmetic, rounding of IEEE doubles is not modelled. Cluster identifiers are
  numbers in the source (\<^verbatim>\<open>@param {number} clusterId\<close>); \<^verbatim>\<open>String(node.id)\<close> is injective on
  them, so the string keys of the source are modelled by the identifiers themselves.
\<close>

datatype topic = Top | Bottom

type_synonym cluster_id = nat

type_synonym vec = "real \<times> real"

text \<open>An element of \<^verbatim>\<open>graph_data.nodes\<close> and of \<^verbatim>\<open>graph_data.edges\<close>, as the service sends them.
  An absent \<^verbatim>\<open>similarity\<close> or \<^verbatim>\<open>story_ids\<close> is \<^term>\<open>None\<close>.\<close>

record graph_node =
  gn_id :: cluster_id
  gn_label :: string
  gn_size :: real
  gn_avg_engagement :: real
  gn_color :: string
  gn_story_ids :: "string list option"

record graph_edge =
  ge_source :: cluster_id
  ge_target :: cluster_id
  ge_similarity :: "real option"

record graph_data =
  gd_nodes :: "graph_node list"
  gd_edges :: "graph_edge list"

text \<open>The objects pushed to \<^verbatim>\<open>sigmaGraph.nodes\<close> and \<^verbatim>\<open>sigmaGraph.edges\<close>. A node object
  is created without \<^verbatim>\<open>vx\<close> and \<^verbatim>\<open>vy\<close>; the simulation adds them.\<close>

record sigma_node =
  sn_key :: cluster_id
  sn_label :: string
  sn_size :: real
  sn_color :: string
  sn_originalId :: cluster_id
  sn_storiesCount :: real
  sn_engagement :: real
  sn_storyIds :: "string list"
  sn_x :: real
  sn_y :: real
  sn_vx :: "real option"
  sn_vy :: "real option"

record sigma_edge =
  se_source :: cluster_id
  se_target :: cluster_id
  se_similarity :: real
  se_color :: string
  se_size :: real

record sigma_graph =
  sg_nodes :: "sigma_node list"
  sg_edges :: "sigma_edge list"

section \<open>renderGraph: node radius\<close>

definition minSize :: real where
  "minSize = 5"

definition maxSize :: real where
  "maxSize = 30"

text \<open>\<^verbatim>\<open>Math.min(...sizes)\<close> and \<^verbatim>\<open>Math.max(...sizes)\<close>. On the empty array the source gets
  \<^verbatim>\<open>Infinity\<close> and \<^verbatim>\<open>-Infinity\<close>, which are never used because the node loop does not
  run; the model returns \<^term>\<open>None\<close> there.\<close>

fun Math_min :: "real list \<Rightarrow> real option" where
  "Math_min [] = None"
| "Math_min (x # xs) = Some (fold min xs x)"

fun Math_max :: "real list \<Rightarrow> real option" where
  "Math_max [] = None"
| "Math_max (x # xs) = Some (fold max xs x)"

text \<open>\<^verbatim>\<open>(node.size - minNodeSize) / (maxNodeSize - minNodeSize || 1)\<close>: the subtraction binds
  tighter than \<^verbatim>\<open>||\<close>, so a zero difference is replaced by 1.\<close>

definition normalizedSize :: "real \<Rightarrow> real \<Rightarrow> real \<Rightarrow> real" where
  "normalizedSize minNodeSize maxNodeSize s =
     (s - minNodeSize) / (if maxNodeSize - minNodeSize = 0 then 1 else maxNodeSize - minNodeSize)"

definition nodeSize :: "real \<Rightarrow> real \<Rightarrow> real \<Rightarrow> real" where
  "nodeSize minNodeSize maxNodeSize s =
     minSize + normalizedSize minNodeSize maxNodeSize s * (maxSize - minSize)"

section \<open>renderGraph: node placement\<close>

text \<open>\<^verbatim>\<open>calculatedPositions && calculatedPositions[node.id]\<close>: the stored position objects are
  always truthy, so the test is a lookup.\<close>

definition stored_position :: "(cluster_id \<rightharpoonup> vec) option \<Rightarrow> cluster_id \<Rightarrow> vec option" where
  "stored_position cp i = (case cp of None \<Rightarrow> None | Some m \<Rightarrow> m i)"

definition story_ids_or_empty :: "string list option \<Rightarrow> string list" where
  "story_ids_or_empty s = (case s of None \<Rightarrow> [] | Some ids \<Rightarrow> ids)"

definition make_node :: "real \<Rightarrow> real \<Rightarrow> graph_node \<Rightarrow> vec \<Rightarrow> sigma_node" where
  "make_node mn mx n p =
     \<lparr> sn_key = gn_id n, sn_label = gn_label n, sn_size = nodeSize mn mx (gn_size n),
       sn_color = gn_color n, sn_originalId = gn_id n, sn_storiesCount = gn_size n,
       sn_engagement = gn_avg_engagement n, sn_storyIds = story_ids_or_empty (gn_story_ids n),
       sn_x = fst p, sn_y = snd p, sn_vx = None, sn_vy = None \<rparr>"

text \<open>The loop \<^verbatim>\<open>graphData.nodes.forEach\<close>. \<^verbatim>\<open>Math.random()\<close> is an input of the model: the
  stream \<open>rnd\<close>, of which \<open>k\<close> values have been drawn so far. A node without a stored
  position draws two.\<close>

fun make_nodes ::
  "real \<Rightarrow> real \<Rightarrow> (cluster_id \<rightharpoonup> vec) option \<Rightarrow> (nat \<Rightarrow> real) \<Rightarrow> nat \<Rightarrow> graph_node list
     \<Rightarrow> sigma_node list" where
  "make_nodes mn mx cp rnd k [] = []"
| "make_nodes mn mx cp rnd k (n # ns) =
     (case stored_position cp (gn_id n) of
        Some p \<Rightarrow> make_node mn mx n p # make_nodes mn mx cp rnd k ns
      | None \<Rightarrow> make_node mn mx n (rnd k * 100, rnd (Suc k) * 100)
                 # make_nodes mn mx cp rnd (Suc (Suc k)) ns)"

definition sigma_nodes_of ::
  "(cluster_id \<rightharpoonup> vec) option \<Rightarrow> (nat \<Rightarrow> real) \<Rightarrow> graph_node list \<Rightarrow> sigma_node list" where
  "sigma_nodes_of cp rnd ns =
     (case (Math_min (map gn_size ns), Math_max (map gn_size ns)) of
        (Some mn, Some mx) \<Rightarrow> make_nodes mn mx cp rnd 0 ns
      | _ \<Rightarrow> [])"

section \<open>renderGraph: edge filter and style\<close>

text \<open>\<^verbatim>\<open>edge.similarity || 0.5\<close>: every falsy value is replaced, the absent one and the
  number zero alike.\<close>

definition edge_similarity :: "graph_edge \<Rightarrow> real" where
  "edge_similarity e =
     (case ge_similarity e of None \<Rightarrow> 0.5 | Some v \<Rightarrow> if v = 0 then 0.5 else v)"

definition edge_color :: "real \<Rightarrow> string" where
  "edge_color similarity =
     (if similarity > 0.8 then ''rgba(20, 20, 20, 0.9)''
      else if similarity \<ge> 0.5 then ''rgba(100, 100, 100, 0.6)''
      else ''rgba(180, 180, 180, 0.25)'')"

definition edge_size :: "real \<Rightarrow> real" where
  "edge_size similarity =
     (if similarity > 0.8 then 3.5 else if similarity \<ge> 0.5 then 2.5 else 1.5)"

definition make_edge :: "graph_edge \<Rightarrow> sigma_edge" where
  "make_edge e =
     \<lparr> se_source = ge_source e, se_target = ge_target e, se_similarity = edge_similarity e,
       se_color = edge_color (edge_similarity e), se_size = edge_size (edge_similarity e) \<rparr>"

fun make_edges :: "real \<Rightarrow> graph_edge list \<Rightarrow> sigma_edge list" where
  "make_edges threshold [] = []"
| "make_edges threshold (e # es) =
     (if edge_similarity e \<ge> threshold then make_edge e # make_edges threshold es
      else make_edges threshold es)"

section \<open>applyForceLayout\<close>

text \<open>The constants of the simulation: \<^verbatim>\<open>iterations\<close>, \<^verbatim>\<open>k\<close>, \<^verbatim>\<open>c\<close>, \<^verbatim>\<open>dt\<close> and
  \<^verbatim>\<open>friction\<close>.\<close>

definition iterations :: nat where
  "iterations = 50"

definition spring_k :: real where
  "spring_k = 2"

definition coulomb_c :: real where
  "coulomb_c = 0.1"

definition time_dt :: real where
  "time_dt = 0.05"

definition friction :: real where
  "friction = 0.85"

text \<open>The object \<^verbatim>\<open>forces\<close>, keyed by \<^verbatim>\<open>node.key\<close>. Every key that is read has been written
  by the reset loop of the same iteration, so a total function is enough: no read of
  the source can miss.\<close>

type_synonym forces = "cluster_id \<Rightarrow> vec"

fun reset_forces :: "sigma_node list \<Rightarrow> forces \<Rightarrow> forces" where
  "reset_forces [] f = f"
| "reset_forces (n # ns) f = reset_forces ns (f(sn_key n := (0, 0)))"

text \<open>\<^verbatim>\<open>Math.sqrt(dx * dx + dy * dy) || 0.1\<close>: only the value zero is replaced.\<close>

definition distance :: "real \<Rightarrow> real \<Rightarrow> real" where
  "distance dx dy = (if sqrt (dx * dx + dy * dy) = 0 then 0.1 else sqrt (dx * dx + dy * dy))"

text \<open>\<^verbatim>\<open>forces[key].x += a; forces[key].y += b\<close> and the same with \<^verbatim>\<open>-=\<close>.\<close>

definition add_force :: "cluster_id \<Rightarrow> vec \<Rightarrow> forces \<Rightarrow> forces" where
  "add_force key v f = f(key := (fst (f key) + fst v, snd (f key) + snd v))"

definition sub_force :: "cluster_id \<Rightarrow> vec \<Rightarrow> forces \<Rightarrow> forces" where
  "sub_force key v f = f(key := (fst (f key) - fst v, snd (f key) - snd v))"

definition repulse_pair :: "sigma_node \<Rightarrow> sigma_node \<Rightarrow> forces \<Rightarrow> forces" where
  "repulse_pair n1 n2 f =
     (let dx = sn_x n2 - sn_x n1;
          dy = sn_y n2 - sn_y n1;
          dist = distance dx dy;
          force = (coulomb_c / (dist * dist)) * 100
      in add_force (sn_key n2) ((dx / dist) * force, (dy / dist) * force)
           (sub_force (sn_key n1) ((dx / dist) * force, (dy / dist) * force) f))"

text \<open>The inner loop over \<^verbatim>\<open>j = i + 1 .. nodes.length - 1\<close> and the outer loop over \<^verbatim>\<open>i\<close>.\<close>

fun repulse_from :: "sigma_node \<Rightarrow> sigma_node list \<Rightarrow> forces \<Rightarrow> forces" where
  "repulse_from n1 [] f = f"
| "repulse_from n1 (n2 # ns) f = repulse_from n1 ns (repulse_pair n1 n2 f)"

fun repulsive_forces :: "sigma_node list \<Rightarrow> forces \<Rightarrow> forces" where
  "repulsive_forces [] f = f"
| "repulsive_forces (n1 # ns) f = repulsive_forces ns (repulse_from n1 ns f)"

text \<open>One round of \<^verbatim>\<open>edges.forEach\<close>: both end points are looked up with
  \<^verbatim>\<open>nodes.find\<close>; an edge with an end point that is not found adds nothing.\<close>

definition attract_pair :: "sigma_node \<Rightarrow> sigma_node \<Rightarrow> forces \<Rightarrow> forces" where
  "attract_pair n1 n2 f =
     (let dx = sn_x n2 - sn_x n1;
          dy = sn_y n2 - sn_y n1;
          dist = distance dx dy;
          force = (dist - spring_k) * 0.01
      in sub_force (sn_key n2) ((dx / dist) * force, (dy / dist) * force)
           (add_force (sn_key n1) ((dx / dist) * force, (dy / dist) * force) f))"

definition attract_edge :: "sigma_node list \<Rightarrow> sigma_edge \<Rightarrow> forces \<Rightarrow> forces" where
  "attract_edge nodes e f =
     (case find (\<lambda>n. sn_key n = se_source e) nodes of
        None \<Rightarrow> f
      | Some n1 \<Rightarrow>
          (case find (\<lambda>n. sn_key n = se_target e) nodes of
             None \<Rightarrow> f
           | Some n2 \<Rightarrow> attract_pair n1 n2 f))"

fun attractive_forces :: "sigma_node list \<Rightarrow> sigma_edge list \<Rightarrow> forces \<Rightarrow> forces" where
  "attractive_forces nodes [] f = f"
| "attractive_forces nodes (e # es) f = attractive_forces nodes es (attract_edge nodes e f)"

text \<open>\<^verbatim>\<open>node.vx || 0\<close>: the absent velocity of a fresh node counts as zero.\<close>

definition or_zero :: "real option \<Rightarrow> real" where
  "or_zero v = (case v of None \<Rightarrow> 0 | Some r \<Rightarrow> r)"

definition move_node :: "forces \<Rightarrow> sigma_node \<Rightarrow> sigma_node" where
  "move_node f n =
     (let fx = fst (f (sn_key n));
          fy = snd (f (sn_key n));
          vx = or_zero (sn_vx n) * friction + fx * time_dt;
          vy = or_zero (sn_vy n) * friction + fy * time_dt
      in n\<lparr> sn_vx := Some vx, sn_vy := Some vy, sn_x := sn_x n + vx, sn_y := sn_y n + vy \<rparr>)"

text \<open>The body of the \<^verbatim>\<open>for (let iter ...)\<close> loop, on the pair of the force table and the
  node array, and the loop itself with the number of rounds still to run.\<close>

definition iteration :: "sigma_edge list \<Rightarrow> forces \<times> sigma_node list \<Rightarrow> forces \<times> sigma_node list" where
  "iteration edges st =
     (let nodes = snd st;
          f0 = reset_forces nodes (fst st);
          f1 = repulsive_forces nodes f0;
          f2 = attractive_forces nodes edges f1
      in (f2, map (move_node f2) nodes))"

fun simulate :: "nat \<Rightarrow> sigma_edge list \<Rightarrow> forces \<times> sigma_node list \<Rightarrow> forces \<times> sigma_node list" where
  "simulate 0 edges st = st"
| "simulate (Suc n) edges st = simulate n edges (iteration edges st)"

text \<open>The node array after the simulation: the forces are initialised to zero for every
  node, then the loop runs \<^const>\<open>iterations\<close> times.\<close>

definition layout_nodes :: "sigma_graph \<Rightarrow> sigma_node list" where
  "layout_nodes sg =
     snd (simulate iterations (sg_edges sg) (reset_forces (sg_nodes sg) (\<lambda>_. (0, 0)), sg_nodes sg))"

section \<open>The graphology graph\<close>

text \<open>graphology is an external library. The model keeps what the source uses of it: the
  attributes of each node under its key, the list of edges, and the documented failures
  of the calls (\<^verbatim>\<open>addNode\<close> on a key that exists, \<^verbatim>\<open>addEdge\<close> with an unknown end point or,
  the graph being simple, with a source and target already linked, and an attribute
  access on an unknown key).\<close>

record node_attrs =
  na_label :: string
  na_x :: real
  na_y :: real
  na_size :: real
  na_color :: string
  na_originalId :: cluster_id
  na_storiesCount :: real
  na_engagement :: real
  na_storyIds :: "string list"

record graphology =
  gg_nodes :: "cluster_id \<rightharpoonup> node_attrs"
  gg_edges :: "sigma_edge list"

datatype graph_error = NodeExists cluster_id | NodeNotFound cluster_id | EdgeExists cluster_id cluster_id

definition new_Graph :: graphology where
  "new_Graph = \<lparr> gg_nodes = Map.empty, gg_edges = [] \<rparr>"

definition attrs_of :: "sigma_node \<Rightarrow> node_attrs" where
  "attrs_of n =
     \<lparr> na_label = sn_label n, na_x = sn_x n, na_y = sn_y n, na_size = sn_size n,
       na_color = sn_color n, na_originalId = sn_originalId n,
       na_storiesCount = sn_storiesCount n, na_engagement = sn_engagement n,
       na_storyIds = sn_storyIds n \<rparr>"

definition addNode :: "sigma_node \<Rightarrow> graphology \<Rightarrow> graph_error + graphology" where
  "addNode n g =
     (case gg_nodes g (sn_key n) of
        Some _ \<Rightarrow> Inl (NodeExists (sn_key n))
      | None \<Rightarrow> Inr (g\<lparr> gg_nodes := (gg_nodes g)(sn_key n \<mapsto> attrs_of n) \<rparr>))"

definition addEdge :: "sigma_edge \<Rightarrow> graphology \<Rightarrow> graph_error + graphology" where
  "addEdge e g =
     (if gg_nodes g (se_source e) = None then Inl (NodeNotFound (se_source e))
      else if gg_nodes g (se_target e) = None then Inl (NodeNotFound (se_target e))
      else if list_ex (\<lambda>e'. se_source e' = se_source e \<and> se_target e' = se_target e) (gg_edges g)
        then Inl (EdgeExists (se_source e) (se_target e))
      else Inr (g\<lparr> gg_edges := gg_edges g @ [e] \<rparr>))"

text \<open>\<^verbatim>\<open>setNodeAttribute(key, 'x', node.x)\<close> followed by the same for \<^verbatim>\<open>'y'\<close>.\<close>

definition setNodeXY :: "sigma_node \<Rightarrow> graphology \<Rightarrow> graph_error + graphology" where
  "setNodeXY n g =
     (case gg_nodes g (sn_key n) of
        None \<Rightarrow> Inl (NodeNotFound (sn_key n))
      | Some a \<Rightarrow> Inr (g\<lparr> gg_nodes := (gg_nodes g)(sn_key n \<mapsto> a\<lparr> na_x := sn_x n, na_y := sn_y n \<rparr>) \<rparr>))"

text \<open>A \<^verbatim>\<open>forEach\<close> whose body may throw: the first failure ends the loop.\<close>

fun for_each :: "('a \<Rightarrow> 's \<Rightarrow> 'e + 's) \<Rightarrow> 'a list \<Rightarrow> 's \<Rightarrow> 'e + 's" where
  "for_each body [] s = Inr s"
| "for_each body (x # xs) s = (case body x s of Inl e \<Rightarrow> Inl e | Inr s' \<Rightarrow> for_each body xs s')"

text \<open>\<^verbatim>\<open>applyForceLayout(graphologyGraph, graphData)\<close>: the simulation mutates the nodes of
  \<^verbatim>\<open>graphData\<close>, then the positions are written to the graphology graph.\<close>

definition applyForceLayout :: "graphology \<Rightarrow> sigma_graph \<Rightarrow> graph_error + (graphology \<times> sigma_graph)" where
  "applyForceLayout g sg =
     (let nodes' = layout_nodes sg
      in case for_each setNodeXY nodes' g of
           Inl e \<Rightarrow> Inl e
         | Inr g' \<Rightarrow> Inr (g', sg\<lparr> sg_nodes := nodes' \<rparr>))"

section \<open>The state of KnowledgeGraphManager\<close>

record summary =
  sm_title :: string
  sm_summary :: string

text \<open>The cluster view of the page: the elements \<^verbatim>\<open>cluster-view\<close>, \<^verbatim>\<open>cluster-view-title\<close>,
  \<^verbatim>\<open>cluster-size\<close>, \<^verbatim>\<open>cluster-engagement\<close> and \<^verbatim>\<open>cluster-summary-text\<close>.\<close>

record cluster_view =
  cv_display :: bool
  cv_title :: string
  cv_size :: real
  cv_engagement :: real
  cv_summary_text :: string

text \<open>An element of the flat list of the concept hierarchy.\<close>

record concept_node =
  cn_id :: string
  cn_label :: string
  cn_layer :: nat
  cn_article_title :: "string option"
  cn_article_url :: "string option"
  cn_children :: "string list option"

text \<open>A node of the d3 hierarchy as the click handler sees it: its \<^verbatim>\<open>data.id\<close> and its
  \<^verbatim>\<open>parent\<close>. The drawn elements carry the attributes \<^verbatim>\<open>data-node-id\<close>,
  \<^verbatim>\<open>data-source-id\<close>, \<^verbatim>\<open>data-target-id\<close> and the two classes \<^verbatim>\<open>highlighted\<close> and
  \<^verbatim>\<open>dimmed\<close>.\<close>

datatype dnode = DNode (d_id: string) (d_parent: "dnode option")

record node_elem =
  ne_datum :: dnode
  ne_node_id :: string
  ne_article :: bool
  ne_highlighted :: bool
  ne_dimmed :: bool

record link_elem =
  le_source_id :: string
  le_target_id :: string
  le_highlighted :: bool
  le_dimmed :: bool

datatype canvas = Cleared | Html string | Svg "node_elem list" "link_elem list"

text \<open>The module-level variables, followed by the parts of the page the functions write.
  \<^verbatim>\<open>summaryCache\<close> is keyed by \<^verbatim>\<open>`${currentTopic}-${nodeAttrs.originalId}`\<close>, modelled by the
  pair. There is one \<^verbatim>\<open>calculatedPositions\<close> for the manager, \<^verbatim>\<open>null\<close> being \<^term>\<open>None\<close>.\<close>

record kg_state =
  currentTopic :: topic
  graphData :: "topic \<Rightarrow> graph_data option"
  searchIds :: "topic \<Rightarrow> string option"
  currentGraph :: "graphology option"
  summaryCache :: "(topic \<times> cluster_id) \<rightharpoonup> summary"
  currentThreshold :: real
  currentGraphData :: "graph_data option"
  calculatedPositions :: "(cluster_id \<rightharpoonup> vec) option"
  currentClusterId :: "cluster_id option"
  isPathHighlighted :: bool
  graph_canvas :: "graphology option"
  cluster_view :: cluster_view
  concept_container_display :: bool
  concept_canvas :: canvas
  canvas_concept :: "(concept_node list \<times> string) option"

section \<open>renderGraph\<close>

text \<open>What a call of \<^verbatim>\<open>renderGraph\<close> that returns has drawn, and whether it ran the layout.\<close>

record rendered =
  r_graph :: graphology
  r_layout_ran :: bool

text \<open>The loop that fills \<^verbatim>\<open>calculatedPositions\<close> from the graphology attributes. The
  table is assigned before the loop, so a failing attribute read would leave the
  entries stored so far.\<close>

fun store_positions ::
  "graphology \<Rightarrow> sigma_node list \<Rightarrow> (cluster_id \<rightharpoonup> vec) \<Rightarrow> (cluster_id \<rightharpoonup> vec) \<times> graph_error option" where
  "store_positions g [] m = (m, None)"
| "store_positions g (n # ns) m =
     (case gg_nodes g (sn_key n) of
        None \<Rightarrow> (m, Some (NodeNotFound (sn_key n)))
      | Some a \<Rightarrow> store_positions g ns (m(sn_originalId n \<mapsto> (na_x a, na_y a))))"

text \<open>\<^verbatim>\<open>renderGraph(graphData)\<close> with the random stream \<open>rnd\<close>. A failure of a graphology call
  leaves the function at that point: the container has been cleared and nothing is
  drawn.\<close>

definition renderGraph :: "(nat \<Rightarrow> real) \<Rightarrow> graph_data \<Rightarrow> kg_state \<Rightarrow> kg_state \<times> (graph_error + rendered)" where
  "renderGraph rnd gd s =
     (let s1 = s\<lparr> currentGraphData := Some gd \<rparr>;
          sg = \<lparr> sg_nodes = sigma_nodes_of (calculatedPositions s1) rnd (gd_nodes gd),
                 sg_edges = make_edges (currentThreshold s1) (gd_edges gd) \<rparr>;
          s2 = s1\<lparr> graph_canvas := None \<rparr>
      in case for_each addNode (sg_nodes sg) new_Graph of
           Inl e \<Rightarrow> (s2, Inl e)
         | Inr g1 \<Rightarrow>
        (case for_each addEdge (sg_edges sg) g1 of
           Inl e \<Rightarrow> (s2, Inl e)
         | Inr g2 \<Rightarrow>
        (case calculatedPositions s2 of
           Some cp \<Rightarrow>
             (s2\<lparr> graph_canvas := Some g2, currentGraph := Some g2 \<rparr>,
              Inr \<lparr> r_graph = g2, r_layout_ran = False \<rparr>)
         | None \<Rightarrow>
        (case applyForceLayout g2 sg of
           Inl e \<Rightarrow> (s2, Inl e)
         | Inr (g3, sg') \<Rightarrow>
        (case store_positions g3 (sg_nodes sg') Map.empty of
           (cp, Some e) \<Rightarrow> (s2\<lparr> calculatedPositions := Some cp \<rparr>, Inl e)
         | (cp, None) \<Rightarrow>
             (s2\<lparr> calculatedPositions := Some cp, graph_canvas := Some g3, currentGraph := Some g3 \<rparr>,
              Inr \<lparr> r_graph = g3, r_layout_ran = True \<rparr>))))))"

section \<open>The events of the graph page\<close>

text \<open>The handlers that touch the graph state, one event each:
  the \<^verbatim>\<open>input\<close> event of the threshold slider with the integer the slider holds; a click
  on a topic button; a timer set with \<^verbatim>\<open>setTimeout(() => renderGraph(g), ...)\<close> firing; and
  the two ways the request of \<^verbatim>\<open>generateGraph(topic)\<close> ends.\<close>

datatype kg_event =
    ThresholdInput int
  | TopicClick topic
  | RenderTimer graph_data
  | GraphFetched topic graph_data
  | GraphFetchFailed topic

definition threshold_input :: "(nat \<Rightarrow> real) \<Rightarrow> int \<Rightarrow> kg_state \<Rightarrow> kg_state" where
  "threshold_input rnd v s =
     (let s1 = s\<lparr> currentThreshold := real_of_int v / 100 \<rparr>
      in case currentGraphData s1 of
           None \<Rightarrow> s1
         | Some gd \<Rightarrow> fst (renderGraph rnd gd s1))"

text \<open>The click sets \<^verbatim>\<open>currentTopic\<close>; the render of \<^verbatim>\<open>graphData[topic]\<close>, when there is one,
  is left to a timer.\<close>

definition topic_click :: "topic \<Rightarrow> kg_state \<Rightarrow> kg_state" where
  "topic_click t s = s\<lparr> currentTopic := t \<rparr>"

definition scheduled_by_topic_click :: "topic \<Rightarrow> kg_state \<Rightarrow> graph_data option" where
  "scheduled_by_topic_click t s = graphData s t"

text \<open>\<^verbatim>\<open>generateGraph\<close> after a successful response: the graph is stored in the slot of the
  topic, the stored positions are reset, and the render is left to a timer.\<close>

definition graph_fetched :: "topic \<Rightarrow> graph_data \<Rightarrow> kg_state \<Rightarrow> kg_state" where
  "graph_fetched t gd s = s\<lparr> graphData := (graphData s)(t := Some gd), calculatedPositions := None \<rparr>"

fun kg_step :: "(nat \<Rightarrow> real) \<Rightarrow> kg_event \<Rightarrow> kg_state \<Rightarrow> kg_state" where
  "kg_step rnd (ThresholdInput v) s = threshold_input rnd v s"
| "kg_step rnd (TopicClick t) s = topic_click t s"
| "kg_step rnd (RenderTimer gd) s = fst (renderGraph rnd gd s)"
| "kg_step rnd (GraphFetched t gd) s = graph_fetched t gd s"
| "kg_step rnd (GraphFetchFailed t) s = s"

text \<open>A run of events; the \<open>i\<close>-th event draws its random numbers from \<open>rnds i\<close>.\<close>

fun kg_run :: "(nat \<Rightarrow> nat \<Rightarrow> real) \<Rightarrow> nat \<Rightarrow> kg_event list \<Rightarrow> kg_state \<Rightarrow> kg_state" where
  "kg_run rnds i [] s = s"
| "kg_run rnds i (e # es) s = kg_run rnds (Suc i) es (kg_step (rnds i) e s)"

text \<open>The state when the page has loaded with both search identifiers known and nothing
  cached.\<close>

definition kg_init :: "string \<Rightarrow> string \<Rightarrow> kg_state" where
  "kg_init top_id bottom_id =
     \<lparr> currentTopic = Top,
       graphData = (\<lambda>_. None),
       searchIds = (\<lambda>t. case t of Top \<Rightarrow> Some top_id | Bottom \<Rightarrow> Some bottom_id),
       currentGraph = None,
       summaryCache = Map.empty,
       currentThreshold = 0.5,
       currentGraphData = None,
       calculatedPositions = None,
       currentClusterId = None,
       isPathHighlighted = False,
       graph_canvas = None,
       cluster_view = \<lparr> cv_display = False, cv_title = [], cv_size = 0, cv_engagement = 0,
                        cv_summary_text = [] \<rparr>,
       concept_container_display = False,
       concept_canvas = Cleared,
       canvas_concept = None \<rparr>"

section \<open>showClusterDetails\<close>

text \<open>The argument \<^verbatim>\<open>nodeAttrs\<close> is the attribute record of the clicked node, read back
  from the graphology graph.\<close>

text \<open>\<^verbatim>\<open>Math.round(x * 10) / 10\<close>; \<^verbatim>\<open>Math.round\<close> rounds a half upwards.\<close>

definition round1 :: "real \<Rightarrow> real" where
  "round1 x = real_of_int \<lfloor>x * 10 + 1 / 2\<rfloor> / 10"

text \<open>\<^verbatim>\<open>!searchId\<close> holds for \<^verbatim>\<open>null\<close> and for the empty string.\<close>

definition search_id_of :: "kg_state \<Rightarrow> topic \<Rightarrow> string option" where
  "search_id_of s t = (case searchIds s t of None \<Rightarrow> None | Some i \<Rightarrow> if i = [] then None else Some i)"

text \<open>The request to the Summary Service that a call is waiting for, with the cache key
  computed before the \<^verbatim>\<open>await\<close>.\<close>

record summary_request =
  rq_cacheKey :: "topic \<times> cluster_id"
  rq_searchId :: string
  rq_clusterId :: cluster_id
  rq_storyIds :: "string list"

text \<open>The last two statements of the function: the concept graph container is hidden and
  its canvas emptied.\<close>

definition hide_concept_graph :: "kg_state \<Rightarrow> kg_state" where
  "hide_concept_graph s = s\<lparr> concept_container_display := False, concept_canvas := Cleared \<rparr>"

text \<open>\<^verbatim>\<open>showClusterDetails(nodeAttrs)\<close> is an \<^verbatim>\<open>async\<close> function with one \<^verbatim>\<open>await\<close>. The part
  before the \<^verbatim>\<open>await\<close> returns the state and, when the summary is not cached and a search
  identifier exists, the request it waits for; otherwise the call is complete.\<close>

definition showClusterDetails_begin :: "node_attrs \<Rightarrow> kg_state \<Rightarrow> kg_state \<times> summary_request option" where
  "showClusterDetails_begin nodeAttrs s =
     (let s1 = s\<lparr> currentClusterId := Some (na_originalId nodeAttrs) \<rparr>;
          s2 = s1\<lparr> cluster_view :=
                    \<lparr> cv_display = True, cv_title = na_label nodeAttrs,
                      cv_size = na_storiesCount nodeAttrs,
                      cv_engagement = round1 (na_engagement nodeAttrs),
                      cv_summary_text = cv_summary_text (cluster_view s1) \<rparr> \<rparr>;
          cacheKey = (currentTopic s2, na_originalId nodeAttrs)
      in case summaryCache s2 cacheKey of
           Some cached \<Rightarrow>
             (hide_concept_graph
                (s2\<lparr> cluster_view := (cluster_view s2)
                        \<lparr> cv_summary_text := sm_summary cached, cv_title := sm_title cached \<rparr> \<rparr>),
              None)
         | None \<Rightarrow>
             (let s3 = s2\<lparr> cluster_view := (cluster_view s2)
                             \<lparr> cv_summary_text := ''Generating summary...'' \<rparr> \<rparr>
              in case search_id_of s3 (currentTopic s3) of
                   None \<Rightarrow>
                     (hide_concept_graph
                        (s3\<lparr> cluster_view := (cluster_view s3)
                                \<lparr> cv_summary_text := ''Failed to generate summary. Please try again.'' \<rparr> \<rparr>),
                      None)
                 | Some searchId \<Rightarrow>
                     (s3, Some \<lparr> rq_cacheKey = cacheKey, rq_searchId = searchId,
                                 rq_clusterId = na_originalId nodeAttrs,
                                 rq_storyIds = na_storyIds nodeAttrs \<rparr>)))"

text \<open>The part after the \<^verbatim>\<open>await\<close>, run when the request ends: with the response
  (\<^term>\<open>Some\<close>) or with a failure, which the \<^verbatim>\<open>catch\<close> block handles.\<close>

definition showClusterDetails_resume :: "summary_request \<Rightarrow> summary option \<Rightarrow> kg_state \<Rightarrow> kg_state" where
  "showClusterDetails_resume rq response s =
     (case response of
        Some summaryResponse \<Rightarrow>
          hide_concept_graph
            (s\<lparr> cluster_view := (cluster_view s)
                   \<lparr> cv_title := sm_title summaryResponse,
                     cv_summary_text := sm_summary summaryResponse \<rparr>,
                summaryCache := (summaryCache s)(rq_cacheKey rq \<mapsto>
                   \<lparr> sm_title = sm_title summaryResponse, sm_summary = sm_summary summaryResponse \<rparr>) \<rparr>)
      | None \<Rightarrow>
          hide_concept_graph
            (s\<lparr> cluster_view := (cluster_view s)
                   \<lparr> cv_summary_text := ''Failed to generate summary. Please try again.'' \<rparr> \<rparr>))"

definition hideClusterView :: "kg_state \<Rightarrow> kg_state" where
  "hideClusterView s =
     s\<lparr> cluster_view := (cluster_view s)\<lparr> cv_display := False \<rparr>, currentClusterId := None \<rparr>"

section \<open>renderConceptTree\<close>

text \<open>An object of \<^verbatim>\<open>nodeMap\<close>: the fields spread from the node, and its \<^verbatim>\<open>children\<close> array.
  The array holds references to objects of \<^verbatim>\<open>nodeMap\<close>; the model holds their keys.
  After the second pass every array that is not empty has been filled from the final
  table, so a key stands for the object the table holds at the end.\<close>

record nm_object =
  nm_node :: concept_node
  nm_children :: "string list"

text \<open>\<^verbatim>\<open>ids.map(childId => nodeMap[childId]).filter(Boolean)\<close>\<close>

definition resolve_children :: "(string \<rightharpoonup> nm_object) \<Rightarrow> string list \<Rightarrow> string list" where
  "resolve_children nodeMap ids = filter (\<lambda>childId. nodeMap childId \<noteq> None) ids"

text \<open>The three loops over \<^verbatim>\<open>nodes\<close>, in the order of the source.\<close>

fun init_nodeMap :: "concept_node list \<Rightarrow> (string \<rightharpoonup> nm_object) \<Rightarrow> (string \<rightharpoonup> nm_object)" where
  "init_nodeMap [] nodeMap = nodeMap"
| "init_nodeMap (node # nodes) nodeMap =
     init_nodeMap nodes
       (nodeMap(cn_id node \<mapsto>
          \<lparr> nm_node = node,
            nm_children = (case cn_children node of
                             None \<Rightarrow> []
                           | Some ids \<Rightarrow> resolve_children nodeMap ids) \<rparr>))"

fun first_pass :: "concept_node list \<Rightarrow> (string \<rightharpoonup> nm_object) \<Rightarrow> (string \<rightharpoonup> nm_object)" where
  "first_pass [] nodeMap = nodeMap"
| "first_pass (node # nodes) nodeMap =
     first_pass nodes
       (if nodeMap (cn_id node) = None
        then nodeMap(cn_id node \<mapsto> \<lparr> nm_node = node, nm_children = [] \<rparr>)
        else nodeMap)"

text \<open>In the second pass the entry of \<^verbatim>\<open>node.id\<close> exists (the loops before have stored
  one for every node of the list); the model leaves the table unchanged where it did
  not.\<close>

fun second_pass :: "concept_node list \<Rightarrow> (string \<rightharpoonup> nm_object) \<Rightarrow> (string \<rightharpoonup> nm_object)" where
  "second_pass [] nodeMap = nodeMap"
| "second_pass (node # nodes) nodeMap =
     second_pass nodes
       (case cn_children node of
          None \<Rightarrow> nodeMap
        | Some ids \<Rightarrow>
            if ids = [] then nodeMap
            else (case nodeMap (cn_id node) of
                    None \<Rightarrow> nodeMap
                  | Some ob \<Rightarrow>
                      nodeMap(cn_id node \<mapsto> ob\<lparr> nm_children := resolve_children nodeMap ids \<rparr>)))"

definition build_nodeMap :: "concept_node list \<Rightarrow> (string \<rightharpoonup> nm_object)" where
  "build_nodeMap nodes = second_pass nodes (first_pass nodes (init_nodeMap nodes Map.empty))"

text \<open>\<^verbatim>\<open>d3.hierarchy(root)\<close> follows the \<^verbatim>\<open>children\<close> arrays from the root and makes one
  hierarchy node for every object it meets; on a cyclic structure it does not return.
  The model unfolds the table to a depth bounded by \<open>fuel\<close> and returns \<^term>\<open>None\<close> when
  the bound is hit. A path without a repeated key is no longer than the node list, so
  with the length of the list as fuel \<^term>\<open>None\<close> stands for the cyclic case.\<close>

datatype hnode = HNode (h_data: concept_node) (h_children: "hnode list")

fun hierarchy :: "nat \<Rightarrow> (string \<rightharpoonup> nm_object) \<Rightarrow> string \<Rightarrow> hnode option" where
  "hierarchy 0 nodeMap i = None"
| "hierarchy (Suc fuel) nodeMap i =
     (case nodeMap i of
        None \<Rightarrow> None
      | Some ob \<Rightarrow> map_option (HNode (nm_node ob)) (those (map (hierarchy fuel nodeMap) (nm_children ob))))"

text \<open>\<^verbatim>\<open>treeData.descendants()\<close> with the parent of each node, and \<^verbatim>\<open>treeData.links()\<close>.\<close>

fun descendants :: "dnode option \<Rightarrow> hnode \<Rightarrow> (dnode \<times> concept_node) list" where
  "descendants parent (HNode c children) =
     (DNode (cn_id c) parent, c)
       # concat (map (descendants (Some (DNode (cn_id c) parent))) children)"

fun links :: "hnode \<Rightarrow> (string \<times> string) list" where
  "links (HNode c children) =
     map (\<lambda>child. (cn_id c, cn_id (h_data child))) children @ concat (map links children)"

definition node_elem_of :: "dnode \<times> concept_node \<Rightarrow> node_elem" where
  "node_elem_of d =
     \<lparr> ne_datum = fst d, ne_node_id = cn_id (snd d), ne_article = (cn_layer (snd d) = 0),
       ne_highlighted = False, ne_dimmed = False \<rparr>"

definition link_elem_of :: "string \<times> string \<Rightarrow> link_elem" where
  "link_elem_of l =
     \<lparr> le_source_id = fst l, le_target_id = snd l, le_highlighted = False, le_dimmed = False \<rparr>"

text \<open>\<^verbatim>\<open>renderConceptTree(nodes, rootId)\<close>. The result is \<^term>\<open>None\<close> when the call does not
  return. The function does not assign \<^verbatim>\<open>isPathHighlighted\<close>.\<close>

definition renderConceptTree :: "concept_node list \<Rightarrow> string \<Rightarrow> kg_state \<Rightarrow> kg_state option" where
  "renderConceptTree nodes rootId s =
     (let s1 = s\<lparr> concept_canvas := Cleared, canvas_concept := Some (nodes, rootId) \<rparr>
      in if nodes = [] then Some (s1\<lparr> concept_canvas := Html ''No concept data available'' \<rparr>)
         else (case build_nodeMap nodes rootId of
                 None \<Rightarrow> Some (s1\<lparr> concept_canvas := Html ''Invalid root node'' \<rparr>)
               | Some rootObject \<Rightarrow>
                   (case hierarchy (length nodes) (build_nodeMap nodes) rootId of
                      None \<Rightarrow> None
                    | Some treeData \<Rightarrow>
                        Some (s1\<lparr> concept_canvas :=
                                    Svg (map node_elem_of (descendants None treeData))
                                        (map link_elem_of (links treeData)) \<rparr>))))"

section \<open>Path highlighting\<close>

text \<open>\<^verbatim>\<open>clearPathHighlight(svgGroup)\<close>: both classes are removed from every node and link
  of the group and the flag is reset. The group is the drawing on the canvas.\<close>

definition clear_node :: "node_elem \<Rightarrow> node_elem" where
  "clear_node e = e\<lparr> ne_highlighted := False, ne_dimmed := False \<rparr>"

definition clear_link :: "link_elem \<Rightarrow> link_elem" where
  "clear_link e = e\<lparr> le_highlighted := False, le_dimmed := False \<rparr>"

definition clear_canvas :: "canvas \<Rightarrow> canvas" where
  "clear_canvas c = (case c of Svg ns ls \<Rightarrow> Svg (map clear_node ns) (map clear_link ls) | _ \<Rightarrow> c)"

definition clearPathHighlight :: "kg_state \<Rightarrow> kg_state" where
  "clearPathHighlight s =
     s\<lparr> concept_canvas := clear_canvas (concept_canvas s), isPathHighlighted := False \<rparr>"

text \<open>The loop \<^verbatim>\<open>while (current) { pathNodes.push(current.data.id); current = current.parent; }\<close>\<close>

fun pathNodes :: "dnode \<Rightarrow> string list" where
  "pathNodes (DNode i None) = [i]"
| "pathNodes (DNode i (Some parent)) = i # pathNodes parent"

definition mark_node :: "string set \<Rightarrow> node_elem \<Rightarrow> node_elem" where
  "mark_node pathNodeSet e =
     e\<lparr> ne_highlighted := (ne_node_id e \<in> pathNodeSet), ne_dimmed := (ne_node_id e \<notin> pathNodeSet) \<rparr>"

definition mark_link :: "string set \<Rightarrow> link_elem \<Rightarrow> link_elem" where
  "mark_link pathNodeSet e =
     e\<lparr> le_highlighted := (le_source_id e \<in> pathNodeSet \<and> le_target_id e \<in> pathNodeSet),
        le_dimmed := (\<not> (le_source_id e \<in> pathNodeSet \<and> le_target_id e \<in> pathNodeSet)) \<rparr>"

definition mark_canvas :: "string set \<Rightarrow> canvas \<Rightarrow> canvas" where
  "mark_canvas pathNodeSet c =
     (case c of
        Svg ns ls \<Rightarrow> Svg (map (mark_node pathNodeSet) ns) (map (mark_link pathNodeSet) ls)
      | _ \<Rightarrow> c)"

definition highlightPathToRoot :: "dnode \<Rightarrow> kg_state \<Rightarrow> kg_state" where
  "highlightPathToRoot clickedNode s =
     (let s1 = clearPathHighlight s
      in s1\<lparr> concept_canvas := mark_canvas (set (pathNodes clickedNode)) (concept_canvas s1),
             isPathHighlighted := True \<rparr>)"

text \<open>The click handler of a node circle. Circles exist only while a tree is drawn.\<close>

definition circle_click :: "dnode \<Rightarrow> kg_state \<Rightarrow> kg_state" where
  "circle_click d s =
     (case concept_canvas s of
        Svg ns ls \<Rightarrow> if isPathHighlighted s then clearPathHighlight s else highlightPathToRoot d s
      | _ \<Rightarrow> s)"

text \<open>No node and no link of the drawing carries one of the two classes.\<close>

definition unclassified :: "canvas \<Rightarrow> bool" where
  "unclassified c =
     (case c of
        Svg ns ls \<Rightarrow>
          list_all (\<lambda>e. \<not> ne_highlighted e \<and> \<not> ne_dimmed e) ns
          \<and> list_all (\<lambda>e. \<not> le_highlighted e \<and> \<not> le_dimmed e) ls
      | _ \<Rightarrow> True)"

section \<open>VisualizationManager: cluster summaries\<close>






text \<open>The element \<^verbatim>\<open>cluster-details\<close>: title, summary and the listed stories (text and
  identifier).\<close>

record details =
  dt_title :: string
  dt_summary :: string
  dt_stories :: "(string \<times> string) list"

text \<open>The fields of the manager that a cluster click reads or writes. \<^verbatim>\<open>clusterIdMaps[topic]\<close>
  is the list of the cluster identifiers of the traces of the topic, absent when the
  topic has no traces; \<open>vm_marker_opacity\<close> is what \<^verbatim>\<open>Plotly.restyle\<close> last set.\<close>

record vm_state =
  vm_currentTopic :: topic
  vm_clusterIdMaps :: "topic \<Rightarrow> cluster_id list option"
  vm_summaryCache :: "string \<rightharpoonup> summary"
  vm_highlightedCluster :: "topic \<Rightarrow> cluster_id option"
  vm_marker_opacity :: "real list"
  vm_details :: "details option"

definition highlightCluster :: "cluster_id \<Rightarrow> topic \<Rightarrow> vm_state \<Rightarrow> vm_state" where
  "highlightCluster clusterId t s =
     (case vm_clusterIdMaps s t of
        None \<Rightarrow> s
      | Some traces \<Rightarrow>
          s\<lparr> vm_marker_opacity := map (\<lambda>traceClusterId. if traceClusterId = clusterId then 1.0 else 0.15) traces,
             vm_highlightedCluster := (vm_highlightedCluster s)(t := Some clusterId) \<rparr>)"

text \<open>\<^verbatim>\<open>showClusterDetails(title, summary, stories)\<close> of the visualization manager;
  \<^verbatim>\<open>summary || 'No summary available.'\<close> replaces the empty string.\<close>

definition vm_showClusterDetails :: "string \<Rightarrow> string \<Rightarrow> (string \<times> string) list \<Rightarrow> vm_state \<Rightarrow> vm_state" where
  "vm_showClusterDetails title summ stories s =
     s\<lparr> vm_details := Some \<lparr> dt_title = title,
                             dt_summary = (if summ = [] then ''No summary available.'' else summ),
                             dt_stories = stories \<rparr> \<rparr>"






section \<open>Notions used in the statements\<close>



text \<open>The events with which a request of \<^verbatim>\<open>generateGraph\<close> ends successfully.\<close>

fun is_fetch :: "kg_event \<Rightarrow> bool" where
  "is_fetch (GraphFetched t gd) = True"
| "is_fetch e = False"

text \<open>The position at which a graphology graph holds the node of a key.\<close>

definition node_xy :: "graphology \<Rightarrow> cluster_id \<Rightarrow> vec option" where
  "node_xy g k = map_option (\<lambda>a. (na_x a, na_y a)) (gg_nodes g k)"

text \<open>All nodes of a list lie at the point \<open>(px, py)\<close>; a node with both velocities set to
  zero.\<close>

definition coincident :: "real \<Rightarrow> real \<Rightarrow> sigma_node list \<Rightarrow> bool" where
  "coincident px py ns = list_all (\<lambda>n. sn_x n = px \<and> sn_y n = py) ns"

definition at_rest :: "sigma_node \<Rightarrow> sigma_node" where
  "at_rest n = n\<lparr> sn_vx := Some 0, sn_vy := Some 0 \<rparr>"

text \<open>The force layout in closed form. For two nodes \<open>a\<close> and \<open>b\<close>: the distance the source
  divides by (the Euclidean distance, or 0.1 when that is zero), the vector
  \<open>(dx / dist, dy / dist)\<close> from \<open>a\<close> to \<open>b\<close>, the magnitude of the repulsion and the
  magnitude of the spring force.\<close>

definition guarded_dist :: "sigma_node \<Rightarrow> sigma_node \<Rightarrow> real" where
  "guarded_dist a b =
     (if sqrt ((sn_x b - sn_x a)\<^sup>2 + (sn_y b - sn_y a)\<^sup>2) = 0 then 0.1
      else sqrt ((sn_x b - sn_x a)\<^sup>2 + (sn_y b - sn_y a)\<^sup>2))"

definition direction :: "sigma_node \<Rightarrow> sigma_node \<Rightarrow> vec" where
  "direction a b = ((sn_x b - sn_x a) / guarded_dist a b, (sn_y b - sn_y a) / guarded_dist a b)"

definition repulsion :: "sigma_node \<Rightarrow> sigma_node \<Rightarrow> real" where
  "repulsion a b = (0.1 / (guarded_dist a b)\<^sup>2) * 100"

definition spring :: "sigma_node \<Rightarrow> sigma_node \<Rightarrow> real" where
  "spring a b = (guarded_dist a b - 2) * 0.01"

definition scale :: "real \<Rightarrow> vec \<Rightarrow> vec" where
  "scale c v = (c * fst v, c * snd v)"

definition vsum :: "vec list \<Rightarrow> vec" where
  "vsum vs = (sum_list (map fst vs), sum_list (map snd vs))"

text \<open>What the node with key \<open>k\<close> receives when the vector \<open>v\<close> is added to the force of
  the node with key \<open>p\<close> and subtracted from the force of the node with key \<open>q\<close>.\<close>

definition share :: "cluster_id \<Rightarrow> cluster_id \<Rightarrow> cluster_id \<Rightarrow> vec \<Rightarrow> vec" where
  "share k p q v =
     ((if k = p then fst v else 0) - (if k = q then fst v else 0),
      (if k = p then snd v else 0) - (if k = q then snd v else 0))"

text \<open>The unordered pairs of a node list, each once, the earlier node first; and the pairs
  of end points of the edges whose source and target are both keys of nodes.\<close>

fun pairs_of :: "'a list \<Rightarrow> ('a \<times> 'a) list" where
  "pairs_of [] = []"
| "pairs_of (x # xs) = map (Pair x) xs @ pairs_of xs"

fun resolved_edges :: "sigma_node list \<Rightarrow> sigma_edge list \<Rightarrow> (sigma_node \<times> sigma_node) list" where
  "resolved_edges nodes [] = []"
| "resolved_edges nodes (e # es) =
     (case (find (\<lambda>n. sn_key n = se_source e) nodes, find (\<lambda>n. sn_key n = se_target e) nodes) of
        (Some n1, Some n2) \<Rightarrow> (n1, n2) # resolved_edges nodes es
      | _ \<Rightarrow> resolved_edges nodes es)"

text \<open>The force on the node with key \<open>k\<close> in one iteration: for every pair \<open>(a, b)\<close> the
  repulsion along the direction from \<open>a\<close> to \<open>b\<close> is added to \<open>b\<close> and subtracted from
  \<open>a\<close>; for every resolved edge from \<open>a\<close> to \<open>b\<close> the spring force along the same
  direction is added to \<open>a\<close> and subtracted from \<open>b\<close>.\<close>

definition net_force :: "sigma_node list \<Rightarrow> sigma_edge list \<Rightarrow> cluster_id \<Rightarrow> vec" where
  "net_force nodes edges k =
     vsum (map (\<lambda>(a, b). share k (sn_key b) (sn_key a) (scale (repulsion a b) (direction a b)))
             (pairs_of nodes)
           @ map (\<lambda>(a, b). share k (sn_key a) (sn_key b) (scale (spring a b) (direction a b)))
               (resolved_edges nodes edges))"

text \<open>The node after the update \<open>v := v * 0.85 + force * 0.05\<close>, \<open>position := position + v\<close>.\<close>

definition moved :: "vec \<Rightarrow> sigma_node \<Rightarrow> sigma_node" where
  "moved force n =
     n\<lparr> sn_vx := Some (or_zero (sn_vx n) * 0.85 + fst force * 0.05),
        sn_vy := Some (or_zero (sn_vy n) * 0.85 + snd force * 0.05),
        sn_x := sn_x n + (or_zero (sn_vx n) * 0.85 + fst force * 0.05),
        sn_y := sn_y n + (or_zero (sn_vy n) * 0.85 + snd force * 0.05) \<rparr>"

definition layout_round :: "sigma_edge list \<Rightarrow> sigma_node list \<Rightarrow> sigma_node list" where
  "layout_round edges nodes = map (\<lambda>n. moved (net_force nodes edges (sn_key n)) n) nodes"

text \<open>The sum of two vectors.\<close>

definition vadd :: "vec \<Rightarrow> vec \<Rightarrow> vec" where
  "vadd u v = (fst u + fst v, snd u + snd v)"

section \<open>Example inputs\<close>

definition ex_node :: "cluster_id \<Rightarrow> real \<Rightarrow> graph_node" where
  "ex_node i s =
     \<lparr> gn_id = i, gn_label = ''cluster'', gn_size = s, gn_avg_engagement = 0,
       gn_color = ''#999'', gn_story_ids = None \<rparr>"

definition ex_attrs :: "cluster_id \<Rightarrow> string \<Rightarrow> node_attrs" where
  "ex_attrs i l =
     \<lparr> na_label = l, na_x = 0, na_y = 0, na_size = 5, na_color = ''#999'',
       na_originalId = i, na_storiesCount = 3, na_engagement = 1, na_storyIds = [] \<rparr>"

text \<open>Cluster 1 (label A) is clicked on the fresh page, then cluster 2 (label B) while the
  summary of cluster 1 is still awaited.\<close>

definition ex_s0 :: kg_state where
  "ex_s0 = kg_init ''search-top'' ''search-bottom''"

definition ex_s1 :: kg_state where
  "ex_s1 = fst (showClusterDetails_begin (ex_attrs 1 ''A'') ex_s0)"

definition ex_rqA :: summary_request where
  "ex_rqA = \<lparr> rq_cacheKey = (Top, 1), rq_searchId = ''search-top'', rq_clusterId = 1, rq_storyIds = [] \<rparr>"

definition ex_s2 :: kg_state where
  "ex_s2 = fst (showClusterDetails_begin (ex_attrs 2 ''B'') ex_s1)"

definition ex_summary_A :: summary where
  "ex_summary_A = \<lparr> sm_title = ''Title A'', sm_summary = ''Summary A'' \<rparr>"

text \<open>A concept list whose root declares a child that is not in the list, and the drawing
  the source makes of it.\<close>

definition ex_concept :: "string \<Rightarrow> nat \<Rightarrow> string list option \<Rightarrow> concept_node" where
  "ex_concept i l cs =
     \<lparr> cn_id = i, cn_label = i, cn_layer = l, cn_article_title = None,
       cn_article_url = None, cn_children = cs \<rparr>"

definition ex_concepts :: "concept_node list" where
  "ex_concepts = [ex_concept ''r'' 1 (Some [''a'', ''ghost'']), ex_concept ''a'' 0 None]"

definition ex_node_elems :: "node_elem list" where
  "ex_node_elems =
     [\<lparr> ne_datum = DNode ''r'' None, ne_node_id = ''r'', ne_article = False,
         ne_highlighted = False, ne_dimmed = False \<rparr>,
      \<lparr> ne_datum = DNode ''a'' (Some (DNode ''r'' None)), ne_node_id = ''a'', ne_article = True,
         ne_highlighted = False, ne_dimmed = False \<rparr>]"

definition ex_link_elems :: "link_elem list" where
  "ex_link_elems =
     [\<lparr> le_source_id = ''r'', le_target_id = ''a'', le_highlighted = False, le_dimmed = False \<rparr>]"

definition ex_tree_canvas :: canvas where
  "ex_tree_canvas = Svg ex_node_elems ex_link_elems"

definition ex_tree_state :: kg_state where
  "ex_tree_state = ex_s0\<lparr> concept_canvas := ex_tree_canvas, canvas_concept := Some (ex_concepts, ''r'') \<rparr>"






text \<open>A graph of two clusters, 0 and 2, with a strong edge and a faint one. With a constant
  random stream both nodes are seeded at the same point \<open>(p, p)\<close>; \<open>ex_drawn\<close> is the
  graph drawn then, \<open>ex_positions\<close> the positions stored.\<close>

definition ex_graph :: "string \<Rightarrow> graph_data" where
  "ex_graph l =
     \<lparr> gd_nodes = [(ex_node 0 1)\<lparr> gn_label := l \<rparr>, (ex_node 2 5)\<lparr> gn_label := l \<rparr>],
       gd_edges = [\<lparr> ge_source = 0, ge_target = 2, ge_similarity = Some 0.9 \<rparr>,
                   \<lparr> ge_source = 2, ge_target = 0, ge_similarity = Some 0.3 \<rparr>] \<rparr>"

definition ex_sigma_node :: "string \<Rightarrow> cluster_id \<Rightarrow> real \<Rightarrow> real \<Rightarrow> real \<Rightarrow> sigma_node" where
  "ex_sigma_node l i sz stories p =
     \<lparr> sn_key = i, sn_label = l, sn_size = sz, sn_color = ''#999'', sn_originalId = i,
       sn_storiesCount = stories, sn_engagement = 0, sn_storyIds = [],
       sn_x = p, sn_y = p, sn_vx = None, sn_vy = None \<rparr>"

definition ex_strong_edge :: sigma_edge where
  "ex_strong_edge =
     \<lparr> se_source = 0, se_target = 2, se_similarity = 0.9,
       se_color = ''rgba(20, 20, 20, 0.9)'', se_size = 3.5 \<rparr>"


definition ex_drawn :: "string \<Rightarrow> real \<Rightarrow> sigma_edge list \<Rightarrow> graphology" where
  "ex_drawn l p es =
     \<lparr> gg_nodes = [0 \<mapsto> attrs_of (ex_sigma_node l 0 5 1 p), 2 \<mapsto> attrs_of (ex_sigma_node l 2 30 5 p)],
       gg_edges = es \<rparr>"

definition ex_positions :: "real \<Rightarrow> (cluster_id \<rightharpoonup> vec)" where
  "ex_positions p = [0 \<mapsto> (p, p), 2 \<mapsto> (p, p)]"

definition ex_rendered :: "string \<Rightarrow> real \<Rightarrow> sigma_edge list \<Rightarrow> kg_state \<Rightarrow> kg_state" where
  "ex_rendered l p es s =
     s\<lparr> currentGraphData := Some (ex_graph l), calculatedPositions := Some (ex_positions p),
         graph_canvas := Some (ex_drawn l p es), currentGraph := Some (ex_drawn l p es) \<rparr>"

text \<open>The graph of topic A is fetched and rendered, the graph of topic B is fetched and
  rendered, then the user switches back to topic A. The first render draws its random
  numbers from the constant stream 0.3, the later ones from 0.6.\<close>

definition ex_events :: "kg_event list" where
  "ex_events =
     [GraphFetched Top (ex_graph ''A''), RenderTimer (ex_graph ''A''),
      GraphFetched Bottom (ex_graph ''B''), RenderTimer (ex_graph ''B''),
      TopicClick Top, RenderTimer (ex_graph ''A'')]"

definition ex_rnds :: "nat \<Rightarrow> nat \<Rightarrow> real" where
  "ex_rnds i = (\<lambda>_. if i = Suc 0 then 30 / 100 else 60 / 100)"

text \<open>Two nodes at distance 1/20 of each other.\<close>

definition ex_near_a :: sigma_node where
  "ex_near_a = ex_sigma_node ''A'' 0 5 1 0"

definition ex_near_b :: sigma_node where
  "ex_near_b = (ex_sigma_node ''A'' 2 30 5 0)\<lparr> sn_x := 1 / 20 \<rparr>"

section \<open>Results\<close>

subsection \<open>Node radius\<close>

lemma Math_min_Min: "xs \<noteq> [] \<Longrightarrow> Math_min xs = Some (Min (set xs))"
  by (cases xs) (simp_all add: Min.set_eq_fold [symmetric])

lemma Math_max_Max: "xs \<noteq> [] \<Longrightarrow> Math_max xs = Some (Max (set xs))"
  by (cases xs) (simp_all add: Max.set_eq_fold [symmetric])

lemma make_nodes_sizes:
  "map sn_size (make_nodes mn mx cp rnd k ns) = map (\<lambda>n. nodeSize mn mx (gn_size n)) ns"
  by (induction ns arbitrary: k) (simp_all add: make_node_def split: option.splits)

text \<open>
  \<^bold>\<open>C9.\<close> For a node list that is not empty, whatever the stored positions and the random
  numbers, the radius \<^verbatim>\<open>size\<close> given to each node is
  \<open>5 + ((size - min) / (max - min)) * (30 - 5)\<close>, with \<open>min\<close> and \<open>max\<close> the least and the
  greatest story count of the list and the divisor replaced by 1 when they are equal.
  The witness is the list of sizes 1, 5, 10, 20: the radii are 5, 195/19, 320/19 and 30.
\<close>

theorem node_radius:
  assumes "ns \<noteq> []"
  shows "map sn_size (sigma_nodes_of cp rnd ns) =
         map (\<lambda>n. 5 + ((gn_size n - Min (gn_size ` set ns))
                       / (if Max (gn_size ` set ns) - Min (gn_size ` set ns) = 0 then 1
                          else Max (gn_size ` set ns) - Min (gn_size ` set ns))) * (30 - 5)) ns"
  using assms
  by (simp add: sigma_nodes_of_def Math_min_Min Math_max_Max make_nodes_sizes nodeSize_def
      normalizedSize_def minSize_def maxSize_def)

theorem node_radius_witness:
  "[ex_node 0 1, ex_node 1 5, ex_node 2 10, ex_node 3 20] \<noteq> [] \<and>
   map sn_size (sigma_nodes_of None (\<lambda>_. 0) [ex_node 0 1, ex_node 1 5, ex_node 2 10, ex_node 3 20])
     = [5, 195 / 19, 320 / 19, 30] \<and>
   (5::real) < 195 / 19 \<and> (195 / 19 :: real) < 320 / 19 \<and> (320 / 19 :: real) < 30"
  using node_radius [of "[ex_node 0 1, ex_node 1 5, ex_node 2 10, ex_node 3 20]" None "\<lambda>_. 0"]
  by (simp add: ex_node_def)

subsection \<open>Edge filter and style\<close>

lemma make_edges_filter:
  "make_edges t es = map make_edge (filter (\<lambda>e. edge_similarity e \<ge> t) es)"
  by (induction es) simp_all

lemma edge_filter_nonzero:
  assumes "ge_similarity e \<noteq> Some 0"
  shows "make_edges t [e] =
           (let v = (case ge_similarity e of None \<Rightarrow> 0.5 | Some v \<Rightarrow> v)
            in if v \<ge> t
               then [\<lparr> se_source = ge_source e, se_target = ge_target e, se_similarity = v,
                       se_color = (if v > 0.8 then ''rgba(20, 20, 20, 0.9)''
                                   else if v \<ge> 0.5 then ''rgba(100, 100, 100, 0.6)''
                                   else ''rgba(180, 180, 180, 0.25)''),
                       se_size = (if v > 0.8 then 3.5 else if v \<ge> 0.5 then 2.5 else 1.5) \<rparr>]
               else [])"
  using assms
  by (auto simp: edge_similarity_def make_edge_def edge_color_def edge_size_def Let_def
      split: option.splits)

text \<open>
  \<^bold>\<open>C3.\<close> The claim asks that an edge is drawn exactly when its similarity is at least the
  threshold, and that a drawn edge with similarity below 0.5 has width 1.5. At the
  default threshold 0.5 an edge whose similarity is the number 0 is drawn, with the
  similarity 0.5, the medium colour and the width 2.5: \<^verbatim>\<open>edge.similarity || 0.5\<close> takes the
  score zero for a missing one. (For every other edge the claim holds, see
  \<open>edge_filter_nonzero\<close>.)
\<close>

theorem zero_similarity_edge:
  "make_edges 0.5 [\<lparr> ge_source = 0, ge_target = 1, ge_similarity = Some 0 \<rparr>] =
     [\<lparr> se_source = 0, se_target = 1, se_similarity = 0.5,
        se_color = ''rgba(100, 100, 100, 0.6)'', se_size = 2.5 \<rparr>]"
  by (simp add: edge_similarity_def make_edge_def edge_color_def edge_size_def)

subsection \<open>Summary of the selected cluster\<close>

text \<open>
  \<^bold>\<open>C5\<close>, as stated, fails. Cluster 1 is clicked, then cluster 2 while the first request is
  pending: the view shows the label of cluster 2 and the placeholder. When the response
  for cluster 1 arrives, the selection is still cluster 2, but the title and the summary
  shown are those of cluster 1.
\<close>

theorem stale_summary_counterexample:
  "snd (showClusterDetails_begin (ex_attrs 1 ''A'') ex_s0) = Some ex_rqA \<and>
   snd (showClusterDetails_begin (ex_attrs 2 ''B'') ex_s1) \<noteq> None \<and>
   currentClusterId ex_s2 = Some 2 \<and>
   cv_title (cluster_view ex_s2) = ''B'' \<and>
   cv_summary_text (cluster_view ex_s2) = ''Generating summary...'' \<and>
   currentClusterId (showClusterDetails_resume ex_rqA (Some ex_summary_A) ex_s2) = Some 2 \<and>
   cv_title (cluster_view (showClusterDetails_resume ex_rqA (Some ex_summary_A) ex_s2)) = ''Title A'' \<and>
   cv_summary_text (cluster_view (showClusterDetails_resume ex_rqA (Some ex_summary_A) ex_s2)) = ''Summary A''"
  by (simp add: ex_s2_def ex_s1_def ex_s0_def ex_rqA_def ex_summary_A_def ex_attrs_def kg_init_def
      showClusterDetails_begin_def showClusterDetails_resume_def search_id_of_def
      hide_concept_graph_def Let_def)

text \<open>
  \<^bold>\<open>C5, amended.\<close> The function has no test of the selection after its \<^verbatim>\<open>await\<close>: a summary
  response is applied whenever it arrives. In every state, for every request and
  response, the resumed call leaves \<^verbatim>\<open>currentClusterId\<close> as it is, shows the title and the
  summary of the response, and stores them in the cache under the key of the request.
\<close>

theorem summary_response_always_applied:
  "currentClusterId (showClusterDetails_resume rq (Some r) s) = currentClusterId s \<and>
   cv_title (cluster_view (showClusterDetails_resume rq (Some r) s)) = sm_title r \<and>
   cv_summary_text (cluster_view (showClusterDetails_resume rq (Some r) s)) = sm_summary r \<and>
   summaryCache (showClusterDetails_resume rq (Some r) s) (rq_cacheKey rq)
     = Some \<lparr> sm_title = sm_title r, sm_summary = sm_summary r \<rparr>"
  by (simp add: showClusterDetails_resume_def hide_concept_graph_def)

subsection \<open>Summary cache of the visualization manager\<close>



lemma highlightCluster_cache [simp]: "vm_summaryCache (highlightCluster c t s) = vm_summaryCache s"
  by (simp add: highlightCluster_def split: option.splits)

lemma vm_showClusterDetails_cache [simp]:
  "vm_summaryCache (vm_showClusterDetails a b st s) = vm_summaryCache s"
  by (simp add: vm_showClusterDetails_def)

lemma vm_showClusterDetails_details [simp]:
  "vm_details (vm_showClusterDetails a b st s) =
     Some \<lparr> dt_title = a, dt_summary = (if b = [] then ''No summary available.'' else b),
            dt_stories = st \<rparr>"
  by (simp add: vm_showClusterDetails_def)








subsection \<open>Path highlighting in the concept tree\<close>

lemma map_clear_node_id:
  "list_all (\<lambda>e. \<not> ne_highlighted e \<and> \<not> ne_dimmed e) ns \<Longrightarrow> map clear_node ns = ns"
  by (induction ns) (simp_all add: clear_node_def)

lemma map_clear_link_id:
  "list_all (\<lambda>e. \<not> le_highlighted e \<and> \<not> le_dimmed e) ls \<Longrightarrow> map clear_link ls = ls"
  by (induction ls) (simp_all add: clear_link_def)

lemma clear_canvas_unclassified: "unclassified c \<Longrightarrow> clear_canvas c = c"
  by (cases c) (simp_all add: clear_canvas_def unclassified_def map_clear_node_id map_clear_link_id)

lemma clear_mark_canvas: "clear_canvas (mark_canvas P c) = clear_canvas c"
  by (cases c) (simp_all add: clear_canvas_def mark_canvas_def clear_node_def mark_node_def
      clear_link_def mark_link_def)

lemma ex_tree_state_unclassified: "unclassified (concept_canvas ex_tree_state)"
  by (simp add: ex_tree_state_def ex_tree_canvas_def ex_node_elems_def ex_link_elems_def
      unclassified_def)

text \<open>
  \<^bold>\<open>C8.\<close> In a state where a tree is drawn, the flag is off and no node or link carries a
  class, a click on the circle of any node \<open>n\<close> turns the flag on, and a following click
  on the circle of any node \<open>m\<close> gives the first state back: the flag is off and no node
  or link carries the class \<^verbatim>\<open>highlighted\<close> or \<^verbatim>\<open>dimmed\<close>.
\<close>

theorem path_highlight_double_toggle:
  assumes "\<not> isPathHighlighted s" and "unclassified (concept_canvas s)"
    and "concept_canvas s = Svg ns ls"
  shows "isPathHighlighted (circle_click n s) \<and>
         circle_click m (circle_click n s) = s \<and>
         \<not> isPathHighlighted (circle_click m (circle_click n s)) \<and>
         unclassified (concept_canvas (circle_click m (circle_click n s)))"
proof -
  have c: "clear_canvas (concept_canvas s) = concept_canvas s"
    using assms(2) by (rule clear_canvas_unclassified)
  have 1: "circle_click n s =
             s\<lparr> concept_canvas := mark_canvas (set (pathNodes n)) (concept_canvas s),
                isPathHighlighted := True \<rparr>"
    using assms(1,3) c by (simp add: circle_click_def highlightPathToRoot_def clearPathHighlight_def)
  have 2: "concept_canvas (circle_click n s) =
             Svg (map (mark_node (set (pathNodes n))) ns) (map (mark_link (set (pathNodes n))) ls)"
    unfolding 1 using assms(3) by (simp add: mark_canvas_def)
  have "circle_click m (circle_click n s) = clearPathHighlight (circle_click n s)"
    using 2 1 by (simp add: circle_click_def)
  also have "\<dots> = s\<lparr> concept_canvas := concept_canvas s, isPathHighlighted := False \<rparr>"
    unfolding 1 using c by (simp add: clearPathHighlight_def clear_mark_canvas)
  finally have 3: "circle_click m (circle_click n s) = s"
    using assms(1) by simp
  show ?thesis using 1 3 assms(1,2) by simp
qed

theorem path_highlight_double_toggle_witness:
  "\<not> isPathHighlighted ex_tree_state \<and>
   unclassified (concept_canvas ex_tree_state) \<and>
   concept_canvas ex_tree_state = Svg ex_node_elems ex_link_elems \<and>
   isPathHighlighted (circle_click (DNode ''a'' (Some (DNode ''r'' None))) ex_tree_state) \<and>
   circle_click (DNode ''r'' None) (circle_click (DNode ''a'' (Some (DNode ''r'' None))) ex_tree_state)
     = ex_tree_state"
proof -
  have f: "\<not> isPathHighlighted ex_tree_state"
    by (simp add: ex_tree_state_def ex_s0_def kg_init_def)
  have c: "concept_canvas ex_tree_state = Svg ex_node_elems ex_link_elems"
    by (simp add: ex_tree_state_def ex_tree_canvas_def)
  show ?thesis
    using path_highlight_double_toggle [OF f ex_tree_state_unclassified c,
        of "DNode ''a'' (Some (DNode ''r'' None))" "DNode ''r'' None"]
      f ex_tree_state_unclassified c
    by simp
qed

lemma ex_nodeMap_r:
  "build_nodeMap ex_concepts ''r'' =
     Some \<lparr> nm_node = ex_concept ''r'' 1 (Some [''a'', ''ghost'']), nm_children = [''a''] \<rparr>"
  by (simp add: build_nodeMap_def ex_concepts_def ex_concept_def resolve_children_def)

lemma ex_nodeMap_a:
  "build_nodeMap ex_concepts ''a'' = Some \<lparr> nm_node = ex_concept ''a'' 0 None, nm_children = [] \<rparr>"
  by (simp add: build_nodeMap_def ex_concepts_def ex_concept_def resolve_children_def)

lemma ex_hierarchy:
  "hierarchy (length ex_concepts) (build_nodeMap ex_concepts) ''r'' =
     Some (HNode (ex_concept ''r'' 1 (Some [''a'', ''ghost''])) [HNode (ex_concept ''a'' 0 None) []])"
proof -
  have l: "length ex_concepts = Suc (Suc 0)" by (simp add: ex_concepts_def)
  show ?thesis unfolding l by (simp add: ex_nodeMap_r ex_nodeMap_a)
qed

lemma ex_render:
  "renderConceptTree ex_concepts ''r'' s =
     Some (s\<lparr> concept_canvas := ex_tree_canvas, canvas_concept := Some (ex_concepts, ''r'') \<rparr>)"
proof -
  have ne: "ex_concepts \<noteq> []" by (simp add: ex_concepts_def)
  show ?thesis
    by (simp add: renderConceptTree_def ne ex_nodeMap_r ex_hierarchy ex_tree_canvas_def
        ex_node_elems_def ex_link_elems_def node_elem_of_def link_elem_of_def ex_concept_def)
qed

lemma render_unclassified:
  assumes "renderConceptTree nodes rootId s = Some s'"
  shows "unclassified (concept_canvas s')"
proof -
  have "unclassified (Svg (map node_elem_of ds) (map link_elem_of ls))" for ds ls
    by (simp add: unclassified_def list_all_iff node_elem_of_def link_elem_of_def)
  then show ?thesis
    using assms
    by (auto simp: renderConceptTree_def Let_def unclassified_def split: if_splits option.splits)
qed

lemma render_flag:
  assumes "renderConceptTree nodes rootId s = Some s'"
  shows "isPathHighlighted s' = isPathHighlighted s"
  using assms
  by (auto simp: renderConceptTree_def Let_def split: if_splits option.splits)

text \<open>
  \<^bold>\<open>C10.\<close> A call of \<^verbatim>\<open>renderConceptTree\<close> that returns leaves \<^verbatim>\<open>isPathHighlighted\<close> as it
  was. When the flag was on and a tree has been drawn, the first click on a circle of
  the new tree takes the clearing branch: the drawing stays as rendered, without any
  highlighted path, and only the flag is reset; the result is not the one of
  \<^verbatim>\<open>highlightPathToRoot\<close>.
\<close>

theorem render_keeps_highlight_flag:
  assumes "renderConceptTree nodes rootId s = Some s'"
  shows "isPathHighlighted s' = isPathHighlighted s \<and>
         (isPathHighlighted s \<and> concept_canvas s' = Svg ns ls \<longrightarrow>
            circle_click d s' = clearPathHighlight s' \<and>
            circle_click d s' = s'\<lparr> isPathHighlighted := False \<rparr> \<and>
            circle_click d s' \<noteq> highlightPathToRoot d s')"
proof -
  have f: "isPathHighlighted s' = isPathHighlighted s"
    using assms by (rule render_flag)
  have u: "clear_canvas (concept_canvas s') = concept_canvas s'"
    using render_unclassified [OF assms] by (rule clear_canvas_unclassified)
  have "circle_click d s' = clearPathHighlight s' \<and>
        circle_click d s' = s'\<lparr> isPathHighlighted := False \<rparr> \<and>
        circle_click d s' \<noteq> highlightPathToRoot d s'"
    if h: "isPathHighlighted s" and c: "concept_canvas s' = Svg ns ls"
  proof -
    have 1: "circle_click d s' = clearPathHighlight s'"
      using h c f by (simp add: circle_click_def)
    have 2: "clearPathHighlight s' = s'\<lparr> isPathHighlighted := False \<rparr>"
      using u by (simp add: clearPathHighlight_def)
    have "isPathHighlighted (highlightPathToRoot d s')"
      by (simp add: highlightPathToRoot_def Let_def)
    moreover have "\<not> isPathHighlighted (circle_click d s')"
      unfolding 1 by (simp add: clearPathHighlight_def)
    ultimately have 3: "circle_click d s' \<noteq> highlightPathToRoot d s'"
      by metis
    show ?thesis using 1 2 3 by simp
  qed
  then show ?thesis using f by blast
qed

lemma ex_click_a:
  "circle_click (DNode ''a'' (Some (DNode ''r'' None))) ex_tree_state =
     ex_tree_state\<lparr> concept_canvas :=
         mark_canvas (set (pathNodes (DNode ''a'' (Some (DNode ''r'' None))))) ex_tree_canvas,
       isPathHighlighted := True \<rparr>"
proof -
  have c: "clear_canvas (Svg ex_node_elems ex_link_elems) = Svg ex_node_elems ex_link_elems"
    using ex_tree_state_unclassified
    by (intro clear_canvas_unclassified) (simp add: ex_tree_state_def ex_tree_canvas_def)
  show ?thesis
    by (simp add: circle_click_def highlightPathToRoot_def clearPathHighlight_def c
        ex_tree_state_def ex_s0_def kg_init_def ex_tree_canvas_def)
qed

theorem render_keeps_highlight_flag_witness:
  "renderConceptTree ex_concepts ''r'' (circle_click (DNode ''a'' (Some (DNode ''r'' None))) ex_tree_state)
     = Some (ex_tree_state\<lparr> isPathHighlighted := True \<rparr>) \<and>
   isPathHighlighted (circle_click (DNode ''a'' (Some (DNode ''r'' None))) ex_tree_state) \<and>
   concept_canvas (ex_tree_state\<lparr> isPathHighlighted := True \<rparr>) = Svg ex_node_elems ex_link_elems \<and>
   circle_click (DNode ''a'' (Some (DNode ''r'' None))) (ex_tree_state\<lparr> isPathHighlighted := True \<rparr>)
     = ex_tree_state\<lparr> isPathHighlighted := False \<rparr> \<and>
   circle_click (DNode ''a'' (Some (DNode ''r'' None))) (ex_tree_state\<lparr> isPathHighlighted := True \<rparr>)
     \<noteq> highlightPathToRoot (DNode ''a'' (Some (DNode ''r'' None)))
          (ex_tree_state\<lparr> isPathHighlighted := True \<rparr>)"
proof -
  have r: "renderConceptTree ex_concepts ''r'' (circle_click (DNode ''a'' (Some (DNode ''r'' None))) ex_tree_state)
             = Some (ex_tree_state\<lparr> isPathHighlighted := True \<rparr>)"
    by (simp add: ex_render ex_click_a) (simp add: ex_tree_state_def)
  have c: "concept_canvas (ex_tree_state\<lparr> isPathHighlighted := True \<rparr>) = Svg ex_node_elems ex_link_elems"
    by (simp add: ex_tree_state_def ex_tree_canvas_def)
  have t: "isPathHighlighted (circle_click (DNode ''a'' (Some (DNode ''r'' None))) ex_tree_state)"
    by (simp add: ex_click_a)
  from render_keeps_highlight_flag [OF r, of ex_node_elems ex_link_elems
        "DNode ''a'' (Some (DNode ''r'' None))"] t c
  have "circle_click (DNode ''a'' (Some (DNode ''r'' None))) (ex_tree_state\<lparr> isPathHighlighted := True \<rparr>)
          = ex_tree_state\<lparr> isPathHighlighted := True \<rparr>\<lparr> isPathHighlighted := False \<rparr>"
    and "circle_click (DNode ''a'' (Some (DNode ''r'' None))) (ex_tree_state\<lparr> isPathHighlighted := True \<rparr>)
          \<noteq> highlightPathToRoot (DNode ''a'' (Some (DNode ''r'' None)))
               (ex_tree_state\<lparr> isPathHighlighted := True \<rparr>)"
    by blast+
  then show ?thesis using r t c by simp
qed

subsection \<open>Building the concept tree\<close>




















subsection \<open>Rendering a graph again\<close>

lemma add_force_zero [simp]: "add_force k (0, 0) f = f"
  by (simp add: add_force_def)

lemma sub_force_zero [simp]: "sub_force k (0, 0) f = f"
  by (simp add: sub_force_def)

lemma repulse_pair_coincident:
  "sn_x n1 = sn_x n2 \<Longrightarrow> sn_y n1 = sn_y n2 \<Longrightarrow> repulse_pair n1 n2 f = f"
  by (simp add: repulse_pair_def Let_def)

lemma attract_pair_coincident:
  "sn_x n1 = sn_x n2 \<Longrightarrow> sn_y n1 = sn_y n2 \<Longrightarrow> attract_pair n1 n2 f = f"
  by (simp add: attract_pair_def Let_def)


lemma repulse_from_coincident:
  "sn_x n1 = px \<Longrightarrow> sn_y n1 = py \<Longrightarrow> coincident px py ns \<Longrightarrow> repulse_from n1 ns f = f"
  by (induction ns arbitrary: f) (simp_all add: coincident_def repulse_pair_coincident)

lemma repulsive_forces_coincident:
  "coincident px py ns \<Longrightarrow> repulsive_forces ns f = f"
proof (induction ns arbitrary: f)
  case Nil
  then show ?case by simp
next
  case (Cons a ns)
  then have "repulse_from a ns f = f"
    by (intro repulse_from_coincident [of a px py]) (simp_all add: coincident_def)
  then show ?case using Cons by (simp add: coincident_def)
qed

lemma find_coincident:
  "coincident px py ns \<Longrightarrow> find P ns = Some n \<Longrightarrow> sn_x n = px \<and> sn_y n = py"
  by (induction ns) (auto simp: coincident_def split: if_splits)

lemma attract_edge_coincident:
  assumes "coincident px py ns"
  shows "attract_edge ns e f = f"
proof (cases "find (\<lambda>n. sn_key n = se_source e) ns")
  case None
  then show ?thesis by (simp add: attract_edge_def)
next
  case (Some n1)
  note s1 = this
  show ?thesis
  proof (cases "find (\<lambda>n. sn_key n = se_target e) ns")
    case None
    then show ?thesis using s1 by (simp add: attract_edge_def)
  next
    case (Some n2)
    have "sn_x n1 = sn_x n2" "sn_y n1 = sn_y n2"
      using find_coincident [OF assms s1] find_coincident [OF assms Some] by simp_all
    then show ?thesis using s1 Some by (simp add: attract_edge_def attract_pair_coincident)
  qed
qed

lemma attractive_forces_coincident:
  "coincident px py ns \<Longrightarrow> attractive_forces ns es f = f"
  by (induction es arbitrary: f) (simp_all add: attract_edge_coincident)

lemma reset_forces_other: "k \<notin> sn_key ` set ns \<Longrightarrow> reset_forces ns f k = f k"
  by (induction ns arbitrary: f) auto

lemma reset_forces_key: "k \<in> sn_key ` set ns \<Longrightarrow> reset_forces ns f k = (0, 0)"
proof (induction ns arbitrary: f)
  case Nil
  then show ?case by simp
next
  case (Cons a ns)
  show ?case
  proof (cases "k \<in> sn_key ` set ns")
    case True
    then show ?thesis using Cons.IH by simp
  next
    case False
    then have "k = sn_key a" using Cons.prems by simp
    then show ?thesis using False by (simp add: reset_forces_other)
  qed
qed


lemma iteration_coincident:
  assumes "coincident px py ns" and "list_all (\<lambda>n. or_zero (sn_vx n) = 0 \<and> or_zero (sn_vy n) = 0) ns"
  shows "snd (iteration es (f, ns)) = map at_rest ns"
proof -
  have "move_node (reset_forces ns f) n = at_rest n" if "n \<in> set ns" for n
    using that assms(2) reset_forces_key [of "sn_key n" ns f]
    by (simp add: move_node_def Let_def at_rest_def list_all_iff)
  then show ?thesis
    using assms(1)
    by (simp add: iteration_def Let_def repulsive_forces_coincident attractive_forces_coincident)
qed

lemma simulate_coincident:
  assumes "coincident px py ns" and "list_all (\<lambda>n. or_zero (sn_vx n) = 0 \<and> or_zero (sn_vy n) = 0) ns"
  shows "snd (simulate (Suc k) es (f, ns)) = map at_rest ns"
  using assms
proof (induction k arbitrary: f ns)
  case 0
  then show ?case
    using iteration_coincident [OF 0] by simp
next
  case (Suc k)
  obtain f' where it: "iteration es (f, ns) = (f', map at_rest ns)"
    using iteration_coincident [OF Suc.prems, of es f] by (cases "iteration es (f, ns)") simp
  have c: "coincident px py (map at_rest ns)"
    using Suc.prems(1) by (simp add: coincident_def list_all_iff at_rest_def)
  have r: "list_all (\<lambda>n. or_zero (sn_vx n) = 0 \<and> or_zero (sn_vy n) = 0) (map at_rest ns)"
    by (simp add: list_all_iff at_rest_def or_zero_def)
  have "snd (simulate (Suc k) es (f', map at_rest ns)) = map at_rest (map at_rest ns)"
    using c r by (rule Suc.IH)
  moreover have "map at_rest (map at_rest ns) = map at_rest ns"
    by (simp add: at_rest_def)
  ultimately show ?case using it by simp
qed

lemma layout_nodes_coincident:
  assumes "coincident px py (sg_nodes sg)"
    and "list_all (\<lambda>n. or_zero (sn_vx n) = 0 \<and> or_zero (sn_vy n) = 0) (sg_nodes sg)"
  shows "layout_nodes sg = map at_rest (sg_nodes sg)"
proof -
  have i: "iterations = Suc 49" by (simp add: iterations_def)
  show ?thesis
    unfolding layout_nodes_def i using assms by (rule simulate_coincident)
qed


lemma make_nodes_keys: "map sn_key (make_nodes mn mx cp rnd k ns) = map gn_id ns"
  by (induction ns arbitrary: k) (simp_all add: make_node_def split: option.splits)

lemma sigma_nodes_of_make:
  "\<exists>mn mx. sigma_nodes_of cp rnd ns = make_nodes mn mx cp rnd 0 ns"
proof (cases ns)
  case Nil
  then show ?thesis by (simp add: sigma_nodes_of_def)
next
  case (Cons a list)
  have "sigma_nodes_of cp rnd (a # list) =
          make_nodes (fold min (map gn_size list) (gn_size a)) (fold max (map gn_size list) (gn_size a))
            cp rnd 0 (a # list)"
    unfolding sigma_nodes_of_def by simp
  then show ?thesis unfolding Cons by blast
qed

lemma sigma_nodes_keys: "map sn_key (sigma_nodes_of cp rnd ns) = map gn_id ns"
  using sigma_nodes_of_make [of cp rnd ns] by (auto simp: make_nodes_keys)

lemma make_nodes_originalId:
  "n \<in> set (make_nodes mn mx cp rnd k ns) \<Longrightarrow> sn_originalId n = sn_key n"
  by (induction ns arbitrary: k) (auto simp: make_node_def split: option.splits)

lemma sigma_nodes_originalId:
  "n \<in> set (sigma_nodes_of cp rnd ns) \<Longrightarrow> sn_originalId n = sn_key n"
  using sigma_nodes_of_make [of cp rnd ns] by (auto dest: make_nodes_originalId)

lemma make_nodes_stored:
  "n \<in> set (make_nodes mn mx (Some cp) rnd k ns) \<Longrightarrow> gn_id ` set ns \<subseteq> dom cp
     \<Longrightarrow> cp (sn_key n) = Some (sn_x n, sn_y n)"
  by (induction ns arbitrary: k) (auto simp: make_node_def stored_position_def split: option.splits)

lemma sigma_nodes_stored:
  "n \<in> set (sigma_nodes_of (Some cp) rnd ns) \<Longrightarrow> gn_id ` set ns \<subseteq> dom cp
     \<Longrightarrow> cp (sn_key n) = Some (sn_x n, sn_y n)"
  using sigma_nodes_of_make [of "Some cp" rnd ns] by (auto dest: make_nodes_stored)

lemma for_each_addNode:
  assumes "for_each addNode ns g = Inr g'"
  shows "gg_nodes g' = gg_nodes g ++ map_of (map (\<lambda>n. (sn_key n, attrs_of n)) ns)
         \<and> distinct (map sn_key ns) \<and> sn_key ` set ns \<inter> dom (gg_nodes g) = {}
         \<and> gg_edges g' = gg_edges g"
  using assms
proof (induction ns arbitrary: g)
  case Nil
  then show ?case by simp
next
  case (Cons a ns)
  from Cons.prems obtain g1 where a: "addNode a g = Inr g1" and r: "for_each addNode ns g1 = Inr g'"
    by (auto split: sum.splits)
  from a have none: "gg_nodes g (sn_key a) = None"
    and g1: "gg_nodes g1 = (gg_nodes g)(sn_key a \<mapsto> attrs_of a)" "gg_edges g1 = gg_edges g"
    by (auto simp: addNode_def split: option.splits)
  from Cons.IH [OF r] have ih: "gg_nodes g' = gg_nodes g1 ++ map_of (map (\<lambda>n. (sn_key n, attrs_of n)) ns)"
    "distinct (map sn_key ns)" "sn_key ` set ns \<inter> dom (gg_nodes g1) = {}" "gg_edges g' = gg_edges g1"
    by simp_all
  have notin: "sn_key a \<notin> sn_key ` set ns" using ih(3) g1(1) by auto
  then have nd: "sn_key a \<notin> dom (map_of (map (\<lambda>n. (sn_key n, attrs_of n)) ns))"
    by (simp add: dom_map_of_conv_image_fst image_image)
  have "gg_nodes g' = gg_nodes g ++ map_of (map (\<lambda>n. (sn_key n, attrs_of n)) (a # ns))"
    unfolding ih(1) g1(1) using nd
    by (auto simp: map_add_def fun_eq_iff split: option.splits)
  moreover have "sn_key ` set (a # ns) \<inter> dom (gg_nodes g) = {}"
    using ih(3) g1(1) none by auto
  moreover have "distinct (map sn_key (a # ns))"
    using ih(2) notin by simp
  moreover have "gg_edges g' = gg_edges g"
    using ih(4) g1(2) by simp
  ultimately show ?case by blast
qed

lemma for_each_addEdge:
  assumes "for_each addEdge es g = Inr g'"
  shows "gg_nodes g' = gg_nodes g"
  using assms
proof (induction es arbitrary: g)
  case Nil
  then show ?case by simp
next
  case (Cons e es)
  from Cons.prems obtain g1 where a: "addEdge e g = Inr g1" and r: "for_each addEdge es g1 = Inr g'"
    by (auto split: sum.splits)
  from a have "gg_nodes g1 = gg_nodes g"
    by (auto simp: addEdge_def split: if_splits)
  then show ?case using Cons.IH [OF r] by simp
qed

lemma move_node_key [simp]: "sn_key (move_node f n) = sn_key n"
  by (simp add: move_node_def Let_def)

lemma move_node_originalId [simp]: "sn_originalId (move_node f n) = sn_originalId n"
  by (simp add: move_node_def Let_def)

lemma simulate_keys:
  "map sn_key (snd (simulate k es st)) = map sn_key (snd st)
   \<and> map sn_originalId (snd (simulate k es st)) = map sn_originalId (snd st)"
  by (induction k arbitrary: st) (simp_all add: iteration_def Let_def)

lemma layout_nodes_keys: "map sn_key (layout_nodes sg) = map sn_key (sg_nodes sg)"
  using simulate_keys [of iterations "sg_edges sg"] by (simp add: layout_nodes_def)

lemma layout_nodes_originalId:
  "map sn_originalId (layout_nodes sg) = map sn_originalId (sg_nodes sg)"
  using simulate_keys [of iterations "sg_edges sg"] by (simp add: layout_nodes_def)

lemma for_each_setNodeXY:
  assumes "for_each setNodeXY ns g = Inr g'"
  shows "dom (gg_nodes g') = dom (gg_nodes g) \<and> sn_key ` set ns \<subseteq> dom (gg_nodes g)
         \<and> (\<forall>k. k \<notin> sn_key ` set ns \<longrightarrow> node_xy g' k = node_xy g k)
         \<and> (distinct (map sn_key ns) \<longrightarrow> (\<forall>n\<in>set ns. node_xy g' (sn_key n) = Some (sn_x n, sn_y n)))"
  using assms
proof (induction ns arbitrary: g)
  case Nil
  then show ?case by simp
next
  case (Cons a ns)
  from Cons.prems obtain g1 where a: "setNodeXY a g = Inr g1" and r: "for_each setNodeXY ns g1 = Inr g'"
    by (auto split: sum.splits)
  from a obtain attrs0 where at0: "gg_nodes g (sn_key a) = Some attrs0"
    and g1: "gg_nodes g1 = (gg_nodes g)(sn_key a \<mapsto> attrs0\<lparr> na_x := sn_x a, na_y := sn_y a \<rparr>)"
    by (auto simp: setNodeXY_def split: option.splits)
  have d1: "dom (gg_nodes g1) = dom (gg_nodes g)" using at0 g1 by auto
  have xy1: "node_xy g1 (sn_key a) = Some (sn_x a, sn_y a)"
    "\<And>k. k \<noteq> sn_key a \<Longrightarrow> node_xy g1 k = node_xy g k"
    using g1 by (simp_all add: node_xy_def)
  note ih = Cons.IH [OF r]
  have 1: "dom (gg_nodes g') = dom (gg_nodes g)" using ih d1 by simp
  have 2: "sn_key ` set (a # ns) \<subseteq> dom (gg_nodes g)" using ih d1 at0 by auto
  have 3: "\<forall>k. k \<notin> sn_key ` set (a # ns) \<longrightarrow> node_xy g' k = node_xy g k"
    using ih xy1(2) by auto
  have 4: "\<forall>n\<in>set (a # ns). node_xy g' (sn_key n) = Some (sn_x n, sn_y n)"
    if d: "distinct (map sn_key (a # ns))"
  proof
    fix n assume n: "n \<in> set (a # ns)"
    show "node_xy g' (sn_key n) = Some (sn_x n, sn_y n)"
    proof (cases "n \<in> set ns")
      case True
      then show ?thesis using ih d by simp
    next
      case False
      then have "n = a" using n by simp
      moreover have "sn_key a \<notin> sn_key ` set ns" using d by auto
      ultimately show ?thesis using ih xy1(1) by simp
    qed
  qed
  show ?case using 1 2 3 4 by blast
qed

lemma store_positions_result:
  assumes "store_positions g ns m = (cp, None)" and "\<forall>n\<in>set ns. sn_originalId n = sn_key n"
  shows "cp k = (if k \<in> sn_key ` set ns then node_xy g k else m k)"
  using assms
proof (induction ns arbitrary: m)
  case Nil
  then show ?case by simp
next
  case (Cons a ns)
  from Cons.prems(1) obtain attrs0 where at0: "gg_nodes g (sn_key a) = Some attrs0"
    and r: "store_positions g ns (m(sn_originalId a \<mapsto> (na_x attrs0, na_y attrs0))) = (cp, None)"
    by (auto split: option.splits)
  have oa: "sn_originalId a = sn_key a" using Cons.prems(2) by simp
  have xa: "node_xy g (sn_key a) = Some (na_x attrs0, na_y attrs0)" using at0 by (simp add: node_xy_def)
  have "cp k = (if k \<in> sn_key ` set ns then node_xy g k
                else (m(sn_originalId a \<mapsto> (na_x attrs0, na_y attrs0))) k)"
    using Cons.IH [OF r] Cons.prems(2) by simp
  then show ?case using oa xa by auto
qed

lemma renderGraph_first_elim:
  assumes "calculatedPositions s = None" and "renderGraph rnd gd s = (s', Inr r)"
  obtains g1 g2 g3 cp where
    "for_each addNode (sigma_nodes_of None rnd (gd_nodes gd)) new_Graph = Inr g1"
    "for_each addEdge (make_edges (currentThreshold s) (gd_edges gd)) g1 = Inr g2"
    "for_each setNodeXY
       (layout_nodes \<lparr> sg_nodes = sigma_nodes_of None rnd (gd_nodes gd),
                       sg_edges = make_edges (currentThreshold s) (gd_edges gd) \<rparr>) g2 = Inr g3"
    "store_positions g3
       (layout_nodes \<lparr> sg_nodes = sigma_nodes_of None rnd (gd_nodes gd),
                       sg_edges = make_edges (currentThreshold s) (gd_edges gd) \<rparr>) Map.empty = (cp, None)"
    "calculatedPositions s' = Some cp" "r = \<lparr> r_graph = g3, r_layout_ran = True \<rparr>"
  using assms
  by (auto simp: renderGraph_def Let_def applyForceLayout_def
      split: sum.splits option.splits prod.splits)

lemma renderGraph_later_elim:
  assumes "calculatedPositions s = Some cp" and "renderGraph rnd gd s = (s', Inr r)"
  obtains g1 g2 where
    "for_each addNode (sigma_nodes_of (Some cp) rnd (gd_nodes gd)) new_Graph = Inr g1"
    "for_each addEdge (make_edges (currentThreshold s) (gd_edges gd)) g1 = Inr g2"
    "calculatedPositions s' = Some cp" "r = \<lparr> r_graph = g2, r_layout_ran = False \<rparr>"
  using assms
  by (auto simp: renderGraph_def Let_def split: sum.splits option.splits prod.splits)

lemma first_render_cache:
  assumes "calculatedPositions s = None" and "renderGraph rnd gd s = (s', Inr r)"
  shows "r_layout_ran r \<and> calculatedPositions s' = Some (node_xy (r_graph r))
         \<and> dom (node_xy (r_graph r)) = gn_id ` set (gd_nodes gd)"
proof -
  let ?ns = "sigma_nodes_of None rnd (gd_nodes gd)"
  let ?sg = "\<lparr> sg_nodes = ?ns, sg_edges = make_edges (currentThreshold s) (gd_edges gd) \<rparr>"
  from assms obtain g1 g2 g3 cp where
    g1: "for_each addNode ?ns new_Graph = Inr g1" and
    g2: "for_each addEdge (make_edges (currentThreshold s) (gd_edges gd)) g1 = Inr g2" and
    g3: "for_each setNodeXY (layout_nodes ?sg) g2 = Inr g3" and
    cp: "store_positions g3 (layout_nodes ?sg) Map.empty = (cp, None)" and
    s': "calculatedPositions s' = Some cp" and r: "r = \<lparr> r_graph = g3, r_layout_ran = True \<rparr>"
    by (rule renderGraph_first_elim)
  have keys: "sn_key ` set (layout_nodes ?sg) = gn_id ` set (gd_nodes gd)"
  proof -
    have "set (map sn_key (layout_nodes ?sg)) = set (map gn_id (gd_nodes gd))"
      by (simp only: layout_nodes_keys sigma_nodes_keys sigma_graph.simps)
    then show ?thesis by simp
  qed
  have d1: "dom (gg_nodes g1) = gn_id ` set (gd_nodes gd)"
  proof -
    have "dom (gg_nodes g1) = fst ` set (map (\<lambda>n. (sn_key n, attrs_of n)) ?ns)"
      using for_each_addNode [OF g1] by (simp add: new_Graph_def dom_map_of_conv_image_fst)
    also have "\<dots> = set (map sn_key ?ns)" by (simp add: image_image)
    also have "\<dots> = gn_id ` set (gd_nodes gd)" by (simp only: sigma_nodes_keys) simp
    finally show ?thesis .
  qed
  have d3: "dom (gg_nodes g3) = gn_id ` set (gd_nodes gd)"
    using for_each_setNodeXY [OF g3] for_each_addEdge [OF g2] d1 by simp
  have orig: "\<forall>n\<in>set (layout_nodes ?sg). sn_originalId n = sn_key n"
  proof -
    have "map sn_originalId ?ns = map sn_key ?ns"
      by (simp add: sigma_nodes_originalId)
    then have "map sn_originalId (layout_nodes ?sg) = map sn_key (layout_nodes ?sg)"
      by (simp add: layout_nodes_keys layout_nodes_originalId)
    then show ?thesis by (simp only: map_eq_conv)
  qed
  have "cp k = node_xy g3 k" for k
  proof (cases "k \<in> gn_id ` set (gd_nodes gd)")
    case True
    then show ?thesis using store_positions_result [OF cp orig, of k] keys by simp
  next
    case False
    then have "node_xy g3 k = None" using d3 by (auto simp: node_xy_def)
    then show ?thesis using store_positions_result [OF cp orig, of k] keys False by simp
  qed
  then have "cp = node_xy g3" by (simp add: fun_eq_iff)
  moreover have "dom (node_xy g3) = dom (gg_nodes g3)"
    by (auto simp: node_xy_def)
  ultimately show ?thesis using s' r d3 by simp
qed

lemma later_render_positions:
  assumes "calculatedPositions s = Some cp" and "gn_id ` set (gd_nodes gd) \<subseteq> dom cp"
    and "renderGraph rnd gd s = (s', Inr r)"
  shows "\<not> r_layout_ran r \<and> calculatedPositions s' = Some cp
         \<and> node_xy (r_graph r) = cp |` (gn_id ` set (gd_nodes gd))"
proof -
  let ?ns = "sigma_nodes_of (Some cp) rnd (gd_nodes gd)"
  from assms(1,3) obtain g1 g2 where
    g1: "for_each addNode ?ns new_Graph = Inr g1" and
    g2: "for_each addEdge (make_edges (currentThreshold s) (gd_edges gd)) g1 = Inr g2" and
    s': "calculatedPositions s' = Some cp" and r: "r = \<lparr> r_graph = g2, r_layout_ran = False \<rparr>"
    by (rule renderGraph_later_elim)
  have n2: "gg_nodes g2 = map_of (map (\<lambda>n. (sn_key n, attrs_of n)) ?ns)"
    using for_each_addNode [OF g1] for_each_addEdge [OF g2] by (simp add: new_Graph_def)
  have "node_xy g2 k = (cp |` (gn_id ` set (gd_nodes gd))) k" for k
  proof (cases "k \<in> gn_id ` set (gd_nodes gd)")
    case True
    then have "k \<in> set (map sn_key ?ns)" by (simp only: sigma_nodes_keys) simp
    then have "k \<in> fst ` set (map (\<lambda>n. (sn_key n, attrs_of n)) ?ns)"
      by (simp add: image_image)
    then obtain a where a: "map_of (map (\<lambda>n. (sn_key n, attrs_of n)) ?ns) k = Some a"
      by (metis domD dom_map_of_conv_image_fst)
    then obtain n where n: "n \<in> set ?ns" "sn_key n = k" "a = attrs_of n"
      by (auto dest!: map_of_SomeD)
    have "cp k = Some (sn_x n, sn_y n)"
      using sigma_nodes_stored [OF n(1) assms(2)] n(2) by simp
    then show ?thesis using True a n(3) n2 by (simp add: node_xy_def attrs_of_def)
  next
    case False
    then have "k \<notin> set (map sn_key ?ns)" by (simp only: sigma_nodes_keys) simp
    then have "k \<notin> fst ` set (map (\<lambda>n. (sn_key n, attrs_of n)) ?ns)"
      by (simp add: image_image)
    then have "map_of (map (\<lambda>n. (sn_key n, attrs_of n)) ?ns) k = None"
      by (simp add: map_of_eq_None_iff)
    then show ?thesis using False n2 by (simp add: node_xy_def)
  qed
  then have "node_xy g2 = cp |` (gn_id ` set (gd_nodes gd))" by (simp add: fun_eq_iff)
  then show ?thesis using s' r by simp
qed


lemma ex_sigma_nodes_first:
  "sigma_nodes_of None (\<lambda>_. p / 100) (gd_nodes (ex_graph l)) =
     [ex_sigma_node l 0 5 1 p, ex_sigma_node l 2 30 5 p]"
  by (simp add: sigma_nodes_of_def ex_graph_def ex_node_def make_node_def stored_position_def
      nodeSize_def normalizedSize_def minSize_def maxSize_def story_ids_or_empty_def ex_sigma_node_def)

lemma ex_sigma_nodes_later:
  "sigma_nodes_of (Some (ex_positions p)) rnd (gd_nodes (ex_graph l)) =
     [ex_sigma_node l 0 5 1 p, ex_sigma_node l 2 30 5 p]"
  by (simp add: sigma_nodes_of_def ex_graph_def ex_node_def make_node_def stored_position_def
      nodeSize_def normalizedSize_def minSize_def maxSize_def story_ids_or_empty_def ex_sigma_node_def
      ex_positions_def)

lemma ex_edges_05: "make_edges (1 / 2) (gd_edges (ex_graph l)) = [ex_strong_edge]"
  by (simp add: ex_graph_def edge_similarity_def make_edge_def edge_color_def edge_size_def
      ex_strong_edge_def)


lemma ex_addNodes:
  "for_each addNode [ex_sigma_node l 0 5 1 p, ex_sigma_node l 2 30 5 p] new_Graph = Inr (ex_drawn l p [])"
  by (simp add: addNode_def new_Graph_def ex_drawn_def ex_sigma_node_def)

lemma ex_addEdges1:
  "for_each addEdge [ex_strong_edge] (ex_drawn l p []) = Inr (ex_drawn l p [ex_strong_edge])"
  by (simp add: addEdge_def ex_drawn_def ex_strong_edge_def)


lemma ex_layout:
  "layout_nodes \<lparr> sg_nodes = [ex_sigma_node l 0 5 1 p, ex_sigma_node l 2 30 5 p], sg_edges = es \<rparr>
     = [at_rest (ex_sigma_node l 0 5 1 p), at_rest (ex_sigma_node l 2 30 5 p)]"
proof -
  have "layout_nodes \<lparr> sg_nodes = [ex_sigma_node l 0 5 1 p, ex_sigma_node l 2 30 5 p], sg_edges = es \<rparr>
     = map at_rest (sg_nodes \<lparr> sg_nodes = [ex_sigma_node l 0 5 1 p, ex_sigma_node l 2 30 5 p],
                              sg_edges = es \<rparr>)"
    by (rule layout_nodes_coincident [of p p])
       (simp_all add: coincident_def ex_sigma_node_def or_zero_def)
  then show ?thesis by simp
qed

lemma ex_setXY:
  "for_each setNodeXY [at_rest (ex_sigma_node l 0 5 1 p), at_rest (ex_sigma_node l 2 30 5 p)] (ex_drawn l p es)
     = Inr (ex_drawn l p es)"
  by (simp add: setNodeXY_def ex_drawn_def at_rest_def ex_sigma_node_def attrs_of_def fun_upd_twist)

lemma ex_store:
  "store_positions (ex_drawn l p es)
     [at_rest (ex_sigma_node l 0 5 1 p), at_rest (ex_sigma_node l 2 30 5 p)] Map.empty
     = (ex_positions p, None)"
  by (simp add: ex_drawn_def at_rest_def ex_sigma_node_def attrs_of_def ex_positions_def)

lemma ex_first_render:
  assumes "calculatedPositions s = None" and "currentThreshold s = 1 / 2"
  shows "renderGraph (\<lambda>_. p / 100) (ex_graph l) s =
     (ex_rendered l p [ex_strong_edge] s,
      Inr \<lparr> r_graph = ex_drawn l p [ex_strong_edge], r_layout_ran = True \<rparr>)"
  by (simp add: renderGraph_def Let_def assms ex_sigma_nodes_first ex_edges_05 ex_addNodes ex_addEdges1
      applyForceLayout_def ex_layout ex_setXY ex_store ex_rendered_def
      del: for_each.simps store_positions.simps)

lemma ex_later_render_05:
  assumes "calculatedPositions s = Some (ex_positions p)" and "currentThreshold s = 1 / 2"
  shows "renderGraph rnd (ex_graph l) s =
     (ex_rendered l p [ex_strong_edge] s,
      Inr \<lparr> r_graph = ex_drawn l p [ex_strong_edge], r_layout_ran = False \<rparr>)"
  using assms(1)
  by (simp add: renderGraph_def Let_def assms(2) ex_sigma_nodes_later ex_edges_05 ex_addNodes ex_addEdges1
      ex_rendered_def del: for_each.simps)



subsection \<open>The stored positions and the topics\<close>

lemma renderGraph_keeps_cache:
  assumes "calculatedPositions s = Some cp"
  shows "calculatedPositions (fst (renderGraph rnd gd s)) = Some cp"
  using assms
  by (simp add: renderGraph_def Let_def split: sum.splits option.splits prod.splits)

lemma renderGraph_graphData: "graphData (fst (renderGraph rnd gd s)) = graphData s"
  by (simp add: renderGraph_def Let_def split: sum.splits option.splits prod.splits)

lemma kg_step_keeps_cache:
  assumes "calculatedPositions s = Some cp" and "\<not> is_fetch e"
  shows "calculatedPositions (kg_step rnd e s) = Some cp"
proof (cases e)
  case (ThresholdInput v)
  have "calculatedPositions (s\<lparr> currentThreshold := real_of_int v / 100 \<rparr>) = Some cp"
    using assms(1) by simp
  then show ?thesis
    unfolding ThresholdInput
    by (simp add: threshold_input_def Let_def renderGraph_keeps_cache split: option.splits)
next
  case (TopicClick t)
  then show ?thesis using assms(1) by (simp add: topic_click_def)
next
  case (RenderTimer gd)
  then show ?thesis using assms(1) by (simp add: renderGraph_keeps_cache)
next
  case (GraphFetched t gd)
  then show ?thesis using assms(2) by simp
next
  case (GraphFetchFailed t)
  then show ?thesis using assms(1) by simp
qed

lemma kg_run_keeps_cache:
  assumes "calculatedPositions s = Some cp" and "list_all (\<lambda>e. \<not> is_fetch e) es"
  shows "calculatedPositions (kg_run rnds i es s) = Some cp"
  using assms
  by (induction es arbitrary: s i) (simp_all add: kg_step_keeps_cache)

text \<open>
  \<^bold>\<open>C4\<close>, as stated, fails: the manager has one table of stored positions, not one per
  topic. In the example run the graph of topic A is fetched and rendered, which stores
  the positions \<open>(30, 30)\<close>; the fetch of a graph for topic B then resets the table; after
  the render of B's graph and the switch back to topic A, the graph of A is drawn at the
  positions \<open>(60, 60)\<close> that were computed for B's graph.
\<close>

theorem shared_position_cache_counterexample:
  "calculatedPositions (kg_run ex_rnds 0 (take 2 ex_events) ex_s0) = Some (ex_positions 30) \<and>
   calculatedPositions (kg_run ex_rnds 0 (take 3 ex_events) ex_s0) = None \<and>
   calculatedPositions (kg_run ex_rnds 0 (take 4 ex_events) ex_s0) = Some (ex_positions 60) \<and>
   graph_canvas (kg_run ex_rnds 0 (take 2 ex_events) ex_s0) = Some (ex_drawn ''A'' 30 [ex_strong_edge]) \<and>
   graph_canvas (kg_run ex_rnds 0 ex_events ex_s0) = Some (ex_drawn ''A'' 60 [ex_strong_edge]) \<and>
   node_xy (ex_drawn ''A'' 30 [ex_strong_edge]) 0 = Some (30, 30) \<and>
   node_xy (ex_drawn ''A'' 60 [ex_strong_edge]) 0 = Some (60, 60)"
proof -
  let ?a = "graph_fetched Top (ex_graph ''A'') ex_s0"
  let ?b = "ex_rendered ''A'' 30 [ex_strong_edge] ?a"
  let ?c = "graph_fetched Bottom (ex_graph ''B'') ?b"
  let ?d = "ex_rendered ''B'' 60 [ex_strong_edge] ?c"
  let ?e = "topic_click Top ?d"
  let ?f = "ex_rendered ''A'' 60 [ex_strong_edge] ?e"
  have r1: "ex_rnds (Suc 0) = (\<lambda>_. 30 / 100)" and r3: "ex_rnds (Suc (Suc (Suc 0))) = (\<lambda>_. 60 / 100)"
    by (simp_all add: ex_rnds_def)
  have a: "calculatedPositions ?a = None" "currentThreshold ?a = 1 / 2"
    by (simp_all add: graph_fetched_def ex_s0_def kg_init_def)
  have b: "fst (renderGraph (ex_rnds (Suc 0)) (ex_graph ''A'') ?a) = ?b"
    unfolding r1 using ex_first_render [OF a, of 30 "''A''"] by simp
  have c: "calculatedPositions ?c = None" "currentThreshold ?c = 1 / 2"
    by (simp_all add: graph_fetched_def ex_rendered_def ex_s0_def kg_init_def)
  have d: "fst (renderGraph (ex_rnds (Suc (Suc (Suc 0)))) (ex_graph ''B'') ?c) = ?d"
    unfolding r3 using ex_first_render [OF c, of 60 "''B''"] by simp
  have e: "calculatedPositions ?e = Some (ex_positions 60)" "currentThreshold ?e = 1 / 2"
    by (simp_all add: topic_click_def graph_fetched_def ex_rendered_def ex_s0_def kg_init_def)
  have f: "fst (renderGraph (ex_rnds (Suc (Suc (Suc (Suc (Suc 0)))))) (ex_graph ''A'') ?e) = ?f"
    using ex_later_render_05 [OF e, of "ex_rnds (Suc (Suc (Suc (Suc (Suc 0)))))" "''A''"] by simp
  have run2: "kg_run ex_rnds 0 (take 2 ex_events) ex_s0 = ?b"
    by (simp add: ex_events_def b)
  have run3: "kg_run ex_rnds 0 (take 3 ex_events) ex_s0 = ?c"
    by (simp add: ex_events_def b)
  have run4: "kg_run ex_rnds 0 (take 4 ex_events) ex_s0 = ?d"
    by (simp add: ex_events_def b d)
  have run6: "kg_run ex_rnds 0 ex_events ex_s0 = ?f"
    by (simp add: ex_events_def b d f)
  show ?thesis
    unfolding run2 run3 run4 run6
    by (simp add: ex_rendered_def graph_fetched_def node_xy_def ex_drawn_def attrs_of_def
        ex_sigma_node_def)
qed

text \<open>
  \<^bold>\<open>C4, amended.\<close> The stored positions are one table for both topics. The table is reset
  when a new graph has been fetched, for either topic. No other event resets or changes
  a table that is set: not a threshold change, not a topic switch, not a render, not a
  failed fetch. A fetch for one topic leaves the graph data of the other slot
  unchanged, and a topic switch or a threshold change leaves the graph data of both.
\<close>

theorem position_cache_single:
  "calculatedPositions (kg_step rnd (GraphFetched t gd) s) = None \<and>
   (calculatedPositions s = Some cp \<and> \<not> is_fetch e \<longrightarrow>
      calculatedPositions (kg_step rnd e s) = Some cp) \<and>
   (t' \<noteq> t \<longrightarrow> graphData (kg_step rnd (GraphFetched t gd) s) t' = graphData s t') \<and>
   graphData (kg_step rnd (TopicClick t) s) = graphData s \<and>
   graphData (kg_step rnd (ThresholdInput v) s) = graphData s"
  using kg_step_keeps_cache [of s cp e rnd]
  by (simp add: graph_fetched_def topic_click_def threshold_input_def Let_def renderGraph_graphData
      split: option.splits)

theorem position_cache_single_witness:
  "calculatedPositions (ex_rendered ''A'' 30 [ex_strong_edge] ex_s0) = Some (ex_positions 30) \<and>
   \<not> is_fetch (ThresholdInput 20) \<and>
   calculatedPositions (kg_step (\<lambda>_. 0.7) (ThresholdInput 20) (ex_rendered ''A'' 30 [ex_strong_edge] ex_s0))
     = Some (ex_positions 30) \<and>
   calculatedPositions (kg_step (\<lambda>_. 0.7) (GraphFetched Bottom (ex_graph ''B''))
       (ex_rendered ''A'' 30 [ex_strong_edge] ex_s0)) = None \<and>
   Top \<noteq> Bottom \<and>
   graphData (kg_step (\<lambda>_. 0.7) (GraphFetched Bottom (ex_graph ''B''))
       (ex_rendered ''A'' 30 [ex_strong_edge] ex_s0)) Top
     = graphData (ex_rendered ''A'' 30 [ex_strong_edge] ex_s0) Top"
proof -
  have c: "calculatedPositions (ex_rendered ''A'' 30 [ex_strong_edge] ex_s0) = Some (ex_positions 30)"
    by (simp add: ex_rendered_def)
  show ?thesis
    using position_cache_single [of "\<lambda>_. 0.7" Bottom "ex_graph ''B''"
        "ex_rendered ''A'' 30 [ex_strong_edge] ex_s0" "ex_positions 30" "ThresholdInput 20" Top] c
    by simp
qed


subsection \<open>The force layout\<close>



lemma distance_guarded:
  "distance (sn_x b - sn_x a) (sn_y b - sn_y a) = guarded_dist a b"
  by (simp add: distance_def guarded_dist_def power2_eq_square)

lemma repulse_pair_at:
  "repulse_pair a b f k =
     vadd (f k) (share k (sn_key b) (sn_key a) (scale (repulsion a b) (direction a b)))"
  by (simp add: repulse_pair_def Let_def distance_guarded add_force_def sub_force_def vadd_def
      share_def scale_def repulsion_def direction_def coulomb_c_def power2_eq_square mult.commute)

lemma attract_pair_at:
  "attract_pair a b f k =
     vadd (f k) (share k (sn_key a) (sn_key b) (scale (spring a b) (direction a b)))"
  by (simp add: attract_pair_def Let_def distance_guarded add_force_def sub_force_def vadd_def
      share_def scale_def spring_def direction_def spring_k_def mult.commute)

lemma vadd_assoc: "vadd (vadd u v) w = vadd u (vadd v w)"
  by (simp add: vadd_def)

lemma vsum_Cons: "vsum (v # vs) = vadd v (vsum vs)"
  by (simp add: vsum_def vadd_def)

lemma vsum_append: "vsum (us @ vs) = vadd (vsum us) (vsum vs)"
  by (simp add: vsum_def vadd_def)

lemma vsum_Nil: "vsum [] = (0, 0)"
  by (simp add: vsum_def)

lemma vadd_zero [simp]: "vadd u (0, 0) = u" "vadd (0, 0) u = u"
  by (simp_all add: vadd_def)

lemma repulse_from_at:
  "repulse_from a bs f k =
     vadd (f k) (vsum (map (\<lambda>b. share k (sn_key b) (sn_key a) (scale (repulsion a b) (direction a b))) bs))"
  by (induction bs arbitrary: f) (simp_all add: vsum_Nil vsum_Cons repulse_pair_at vadd_assoc)

lemma repulsive_forces_at:
  "repulsive_forces ns f k =
     vadd (f k) (vsum (map (\<lambda>(a, b). share k (sn_key b) (sn_key a) (scale (repulsion a b) (direction a b)))
                        (pairs_of ns)))"
proof (induction ns arbitrary: f)
  case Nil
  then show ?case by (simp add: vsum_Nil)
next
  case (Cons a ns)
  show ?case
    by (simp add: Cons.IH repulse_from_at vsum_append vadd_assoc comp_def)
qed

lemma attractive_forces_at:
  "attractive_forces ns es f k =
     vadd (f k) (vsum (map (\<lambda>(a, b). share k (sn_key a) (sn_key b) (scale (spring a b) (direction a b)))
                        (resolved_edges ns es)))"
proof (induction es arbitrary: f)
  case Nil
  then show ?case by (simp add: vsum_Nil)
next
  case (Cons e es)
  show ?case
    by (simp add: Cons.IH attract_edge_def attract_pair_at vsum_Cons vadd_assoc split: option.splits)
qed

lemma iteration_forces:
  assumes "n \<in> set nodes"
  shows "fst (iteration edges (f, nodes)) (sn_key n) = net_force nodes edges (sn_key n)"
proof -
  have "reset_forces nodes f (sn_key n) = (0, 0)"
    using assms by (intro reset_forces_key) simp
  then show ?thesis
    by (simp add: iteration_def Let_def attractive_forces_at repulsive_forces_at net_force_def
        vsum_append)
qed

lemma move_node_moved: "move_node f n = moved (f (sn_key n)) n"
  by (simp add: move_node_def moved_def Let_def friction_def time_dt_def)

lemma iteration_round: "snd (iteration edges (f, nodes)) = layout_round edges nodes"
proof -
  have "move_node (fst (iteration edges (f, nodes))) n = moved (net_force nodes edges (sn_key n)) n"
    if "n \<in> set nodes" for n
    using iteration_forces [OF that, of edges f] by (simp add: move_node_moved)
  then have "map (move_node (fst (iteration edges (f, nodes)))) nodes = layout_round edges nodes"
    by (simp add: layout_round_def)
  then show ?thesis by (simp add: iteration_def Let_def)
qed

lemma simulate_rounds: "snd (simulate k edges (f, nodes)) = (layout_round edges ^^ k) nodes"
proof (induction k arbitrary: f nodes)
  case 0
  then show ?case by simp
next
  case (Suc k)
  obtain f' where it: "iteration edges (f, nodes) = (f', layout_round edges nodes)"
    using iteration_round [of edges f nodes] by (cases "iteration edges (f, nodes)") simp
  show ?case
    by (simp add: it Suc.IH funpow_swap1)
qed

text \<open>
  \<^bold>\<open>C1, amended.\<close> The layout is exactly 50 rounds on the node list. A round does not depend
  on the forces left by the round before (they are reset); it moves every node \<open>n\<close> by
  \<open>v := v * 0.85 + force * 0.05\<close>, \<open>position := position + v\<close>, the velocity of a fresh
  node being zero, where the force on \<open>n\<close> is the sum of: for every unordered pair of
  nodes, a repulsion of magnitude \<open>(0.1 / dist\<^sup>2) * 100\<close> along \<open>(dx / dist, dy / dist)\<close>,
  pushing the two apart; for every edge given to the layout whose end points are both
  found among the nodes, a spring force of magnitude \<open>(dist - 2) * 0.01\<close> along the same
  vector, pulling the two together when it is positive. \<open>dist\<close> is the Euclidean
  distance, replaced by 0.1 only when it is exactly zero; the vector is then zero and the
  pair receives no force. The result is a function of the initial nodes and the edges.
\<close>

theorem force_layout_rounds:
  "layout_nodes sg = (layout_round (sg_edges sg) ^^ 50) (sg_nodes sg) \<and>
   snd (iteration edges (f, nodes)) = layout_round edges nodes \<and>
   layout_round edges nodes = map (\<lambda>n. moved (net_force nodes edges (sn_key n)) n) nodes"
  by (simp add: layout_nodes_def simulate_rounds iterations_def iteration_round layout_round_def)

lemma sqrt_400: "sqrt (1 / 400) = 1 / 20"
  by (rule real_sqrt_unique) (simp_all add: power2_eq_square)

lemma ex_near_distance: "distance (sn_x ex_near_b - sn_x ex_near_a) (sn_y ex_near_b - sn_y ex_near_a) = 1 / 20"
  by (simp add: distance_def ex_near_a_def ex_near_b_def ex_sigma_node_def sqrt_400)

lemma ex_near_forces:
  "repulsive_forces [ex_near_a, ex_near_b] (\<lambda>_. (0, 0)) = (\<lambda>_. (0, 0))(0 := (- 4000, 0), 2 := (4000, 0))"
proof -
  have d: "distance (1 / 20) 0 = 1 / 20"
    using ex_near_distance by (simp add: ex_near_a_def ex_near_b_def ex_sigma_node_def)
  show ?thesis
    by (simp add: repulse_pair_def Let_def add_force_def sub_force_def coulomb_c_def
        ex_near_a_def ex_near_b_def ex_sigma_node_def d)
qed

text \<open>
  \<^bold>\<open>C1\<close>, as stated, fails where it gives the distance a floor of 0.1 and has every pair
  pushed apart. For two nodes at distance 1/20 the source divides by 1/20: the repulsion
  on the second node is 4000, not the 1000 of a distance floored at 0.1, and the first
  round gives the velocities -200 and 200. For two nodes at the same point the distance
  is replaced by 0.1 but the vector between them is zero: the 50 rounds leave both nodes
  where they are.
\<close>

theorem distance_floor_counterexample:
  "distance (sn_x ex_near_b - sn_x ex_near_a) (sn_y ex_near_b - sn_y ex_near_a) = 1 / 20 \<and>
   repulsive_forces [ex_near_a, ex_near_b] (\<lambda>_. (0, 0)) 2 = (4000, 0) \<and>
   (4000 :: real) \<noteq> (0.1 / (max (1 / 20) 0.1)\<^sup>2) * 100 \<and>
   map sn_vx (snd (iteration [] (\<lambda>_. (0, 0), [ex_near_a, ex_near_b]))) = [Some (- 200), Some 200] \<and>
   layout_nodes \<lparr> sg_nodes = [ex_sigma_node ''A'' 0 5 1 30, ex_sigma_node ''A'' 2 30 5 30], sg_edges = [] \<rparr>
     = [at_rest (ex_sigma_node ''A'' 0 5 1 30), at_rest (ex_sigma_node ''A'' 2 30 5 30)]"
proof -
  have r: "reset_forces [ex_near_a, ex_near_b] (\<lambda>_. (0, 0)) = (\<lambda>_. (0, 0))"
    by (simp add: fun_eq_iff)
  have v: "map sn_vx (snd (iteration [] (\<lambda>_. (0, 0), [ex_near_a, ex_near_b]))) = [Some (- 200), Some 200]"
    unfolding iteration_def Let_def snd_conv fst_conv r attractive_forces.simps ex_near_forces
    by (simp add: move_node_def Let_def or_zero_def friction_def time_dt_def
        ex_near_a_def ex_near_b_def ex_sigma_node_def)
  have m: "(4000 :: real) \<noteq> (0.1 / (max (1 / 20) 0.1)\<^sup>2) * 100"
    by (simp add: power2_eq_square)
  have f2: "repulsive_forces [ex_near_a, ex_near_b] (\<lambda>_. (0, 0)) 2 = (4000, 0)"
    unfolding ex_near_forces by simp
  show ?thesis
    by (intro conjI ex_near_distance f2 m v ex_layout)
qed


subsection \<open>Further consequences\<close>

text \<open>
  The knowledge graph page keeps a cache of summaries of its own, keyed by the topic and
  the cluster identifier. There too, once the response of a first click has been stored,
  a second click on the cluster makes no request and shows the stored title and summary,
  whatever the story identifiers of the node are.
\<close>

lemma showClusterDetails_begin_request:
  assumes "showClusterDetails_begin a s = (s1, Some rq)"
  shows "rq_cacheKey rq = (currentTopic s, na_originalId a) \<and> currentTopic s1 = currentTopic s"
proof (cases "summaryCache s (currentTopic s, na_originalId a)")
  case None
  show ?thesis
  proof (cases "search_id_of s (currentTopic s)")
    case None
    then show ?thesis
      using assms \<open>summaryCache s (currentTopic s, na_originalId a) = None\<close>
      by (simp add: showClusterDetails_begin_def Let_def search_id_of_def)
  next
    case (Some sid)
    then show ?thesis
      using assms \<open>summaryCache s (currentTopic s, na_originalId a) = None\<close>
      by (auto simp: showClusterDetails_begin_def Let_def search_id_of_def)
  qed
next
  case (Some c)
  then show ?thesis using assms by (simp add: showClusterDetails_begin_def Let_def)
qed

lemma kg_summary_cache_hit:
  assumes "showClusterDetails_begin a1 s = (s1, Some rq)" and "na_originalId a2 = na_originalId a1"
  shows "snd (showClusterDetails_begin a2 (showClusterDetails_resume rq (Some r) s1)) = None \<and>
         cv_title (cluster_view (fst (showClusterDetails_begin a2 (showClusterDetails_resume rq (Some r) s1))))
           = sm_title r \<and>
         cv_summary_text (cluster_view (fst (showClusterDetails_begin a2 (showClusterDetails_resume rq (Some r) s1))))
           = sm_summary r"
proof -
  let ?s2 = "showClusterDetails_resume rq (Some r) s1"
  from showClusterDetails_begin_request [OF assms(1)]
  have k: "rq_cacheKey rq = (currentTopic s1, na_originalId a2)"
    using assms(2) by simp
  have t: "currentTopic ?s2 = currentTopic s1"
    by (simp add: showClusterDetails_resume_def hide_concept_graph_def)
  have c: "summaryCache ?s2 (currentTopic ?s2, na_originalId a2)
             = Some \<lparr> sm_title = sm_title r, sm_summary = sm_summary r \<rparr>"
    unfolding t using k by (simp add: showClusterDetails_resume_def hide_concept_graph_def)
  show ?thesis
    using c by (simp add: showClusterDetails_begin_def Let_def hide_concept_graph_def)
qed

text \<open>
  \<^verbatim>\<open>applyForceLayout\<close>, when the positions can be written to the graphology graph, leaves
  the nodes of the layout in \<^verbatim>\<open>graphData\<close>.
\<close>

lemma applyForceLayout_nodes:
  assumes "applyForceLayout g sg = Inr (g', sg')"
  shows "sg_nodes sg' = layout_nodes sg \<and> sg_edges sg' = sg_edges sg"
  using assms by (auto simp: applyForceLayout_def Let_def split: sum.splits)

text \<open>
  After the first render of a graph, any run of threshold changes, topic clicks, renders
  and failed fetches leaves the stored positions, so that a further render of the graph
  draws the coordinates of the first one.
\<close>

lemma rerender_after_events:
  assumes "calculatedPositions s0 = None" and "renderGraph rnd0 gd s0 = (s1, Inr r1)"
    and "list_all (\<lambda>e. \<not> is_fetch e) es"
    and "renderGraph rnd gd (kg_run rnds i es s1) = (s2, Inr r2)"
  shows "\<not> r_layout_ran r2 \<and> node_xy (r_graph r2) = node_xy (r_graph r1)"
proof -
  note a = first_render_cache [OF assms(1,2)]
  then have c: "calculatedPositions (kg_run rnds i es s1) = Some (node_xy (r_graph r1))"
    using assms(3) by (intro kg_run_keeps_cache) simp_all
  have sub: "gn_id ` set (gd_nodes gd) \<subseteq> dom (node_xy (r_graph r1))" using a by simp
  from later_render_positions [OF c sub assms(4)]
  have b: "\<not> r_layout_ran r2"
    "node_xy (r_graph r2) = node_xy (r_graph r1) |` (gn_id ` set (gd_nodes gd))"
    by simp_all
  have "(node_xy (r_graph r1) |` (gn_id ` set (gd_nodes gd))) k = node_xy (r_graph r1) k" for k
  proof (cases "k \<in> gn_id ` set (gd_nodes gd)")
    case True
    then show ?thesis by simp
  next
    case False
    then have "k \<notin> dom (node_xy (r_graph r1))" using a by simp
    then have "node_xy (r_graph r1) k = None" by blast
    then show ?thesis using False by simp
  qed
  then have "node_xy (r_graph r1) |` (gn_id ` set (gd_nodes gd)) = node_xy (r_graph r1)"
    by (simp add: fun_eq_iff)
  then show ?thesis using b by simp
qed

end
